theory Spec2Isabelle
  imports Complex_Main "HOL-Library.Product_Lexorder" "HOL-Library.Char_ord"
    "HOL-Library.List_Lexorder"
begin

section \<open>Python values, exceptions and JSON\<close>

text \<open>
  The exceptions of \<^verbatim>\<open>teii.finance\<close> carry their message; the built-in exceptions
  that the pandas and requests calls of the source can raise are listed by class. Every
  constructor stands for a subclass of Python's \<^verbatim>\<open>Exception\<close>.
\<close>

datatype py_exception =
    FinanceClientInvalidAPIKey string
  | FinanceClientAPIError string
  | FinanceClientInvalidData string
  | FinanceClientParamError string
  | FinanceClientIOError string
  | AssertionError
  | TypeError
  | KeyError string
  | ValueError
  | IndexError
  | AttributeError
  | UnboundLocalError string
  | OSError
  | PermissionError
  | ConnectionError

text \<open>\<^verbatim>\<open>except (IOError, PermissionError)\<close>: \<^verbatim>\<open>IOError\<close> is an alias of
  \<^verbatim>\<open>OSError\<close>, whose subclasses include \<^verbatim>\<open>PermissionError\<close> and the
  \<^verbatim>\<open>ConnectionError\<close> of the standard library.\<close>

fun is_OSError :: "py_exception \<Rightarrow> bool" where
  "is_OSError OSError = True"
| "is_OSError PermissionError = True"
| "is_OSError ConnectionError = True"
| "is_OSError _ = False"

text \<open>The value passed as \<^verbatim>\<open>api_key\<close>: \<^verbatim>\<open>None\<close>, a string, or any other object,
  of which only the truth value matters to the constructor.\<close>

datatype py_value = PyNone | PyStr string | PyObject bool

fun truthy :: "py_value \<Rightarrow> bool" where
  "truthy PyNone = False"
| "truthy (PyStr s) = (s \<noteq> [])"
| "truthy (PyObject b) = b"

fun is_str :: "py_value \<Rightarrow> bool" where
  "is_str (PyStr s) = True"
| "is_str _ = False"

fun str_of :: "py_value \<Rightarrow> string" where
  "str_of (PyStr s) = s"
| "str_of _ = []"

text \<open>\<^verbatim>\<open>os.getenv\<close> returns the string of the variable, or \<^verbatim>\<open>None\<close>.\<close>

definition getenv :: "string option \<Rightarrow> py_value" where
  "getenv env = (case env of None \<Rightarrow> PyNone | Some s \<Rightarrow> PyStr s)"

text \<open>A decoded JSON value. \<open>JObj\<close> lists the items of a dict in insertion order; a dict
  holds no key twice.\<close>

datatype json =
    JNull
  | JBool bool
  | JNum rat
  | JStr string
  | JArr "json list"
  | JObj "(string \<times> json) list"

text \<open>\<^verbatim>\<open>j[key]\<close> with a string key: a dict raises \<^verbatim>\<open>KeyError\<close> on a missing key, every
  other JSON value raises \<^verbatim>\<open>TypeError\<close>.\<close>

definition getitem_json :: "json \<Rightarrow> string \<Rightarrow> py_exception + json" where
  "getitem_json j key =
     (case j of
        JObj kvs \<Rightarrow> (case map_of kvs key of None \<Rightarrow> Inl (KeyError key) | Some v \<Rightarrow> Inr v)
      | _ \<Rightarrow> Inl TypeError)"

text \<open>\<^verbatim>\<open>xs[i]\<close> on a Python list, for a non-negative index.\<close>

definition py_nth :: "'a list \<Rightarrow> nat \<Rightarrow> py_exception + 'a" where
  "py_nth xs i = (if i < length xs then Inr (xs ! i) else Inl IndexError)"

text \<open>\<^verbatim>\<open>str(n)\<close> of a Python integer.\<close>

definition digit_char :: "nat \<Rightarrow> char" where
  "digit_char d = ''0123456789'' ! d"

function str_nat :: "nat \<Rightarrow> string" where
  "str_nat n = (if n < 10 then [digit_char n] else str_nat (n div 10) @ [digit_char (n mod 10)])"
  by pat_completeness auto
termination
  by (relation "measure id") auto

definition str_int :: "int \<Rightarrow> string" where
  "str_int i = (if i < 0 then CHR ''-'' # str_nat (nat (- i)) else str_nat (nat i))"

text \<open>Running a fallible function over a list: the first exception ends the run.\<close>

fun traverse :: "('a \<Rightarrow> 'e + 'b) \<Rightarrow> 'a list \<Rightarrow> 'e + 'b list" where
  "traverse f [] = Inr []"
| "traverse f (x # xs) =
     (case f x of
        Inl e \<Rightarrow> Inl e
      | Inr y \<Rightarrow> (case traverse f xs of Inl e \<Rightarrow> Inl e | Inr ys \<Rightarrow> Inr (y # ys)))"

fun traverse_option :: "('a \<Rightarrow> 'b option) \<Rightarrow> 'a list \<Rightarrow> 'b list option" where
  "traverse_option f [] = Some []"
| "traverse_option f (x # xs) =
     (case f x of
        None \<Rightarrow> None
      | Some y \<Rightarrow> (case traverse_option f xs of None \<Rightarrow> None | Some ys \<Rightarrow> Some (y # ys)))"

section \<open>Tables\<close>

text \<open>
  A calendar date is (year, month, day), ordered lexicographically as
  \<^verbatim>\<open>datetime.date\<close> is. A cell is a float64 (a finite value, NaN or an infinity) or
  an integer; a finite float64 is held as the rational that it is.
  A data frame holds its column labels and its rows in order; a row is its index label
  and its cells by column label, and a label without a cell reads as NaN. A series is
  one column with the index.
\<close>

type_synonym date = "nat \<times> nat \<times> nat"

datatype cell = Float64 rat | NaN | PosInf | NegInf | Int64 int

record 'i frame =
  colnames :: "string list"
  rows :: "('i \<times> (string \<times> cell) list) list"

type_synonym 'i series = "('i \<times> cell) list"

definition cell_at :: "(string \<times> cell) list \<Rightarrow> string \<Rightarrow> cell" where
  "cell_at r c = (case map_of r c of None \<Rightarrow> NaN | Some v \<Rightarrow> v)"

text \<open>\<^verbatim>\<open>df[c]\<close>: the column as a series, \<^verbatim>\<open>KeyError\<close> when there is no such column.\<close>

definition getitem :: "'i frame \<Rightarrow> string \<Rightarrow> py_exception + 'i series" where
  "getitem df c =
     (if c \<in> set (colnames df) then Inr (map (\<lambda>(i, r). (i, cell_at r c)) (rows df))
      else Inl (KeyError c))"

text \<open>\<^verbatim>\<open>df[[c1, c2, ...]].copy()\<close>: the frame of these columns.\<close>

definition getitems :: "'i frame \<Rightarrow> string list \<Rightarrow> py_exception + 'i frame" where
  "getitems df cs =
     (case find (\<lambda>c. c \<notin> set (colnames df)) cs of
        Some c \<Rightarrow> Inl (KeyError c)
      | None \<Rightarrow>
          Inr \<lparr>colnames = cs,
               rows = map (\<lambda>(i, r). (i, map (\<lambda>c. (c, cell_at r c)) cs)) (rows df)\<rparr>)"

text \<open>\<^verbatim>\<open>df[c] = df[a] - df[b]\<close>: a new column comes last, an existing one is replaced.
  The difference of two cells is computed by numpy in float64, with rounding; it is the
  argument \<open>sub\<close>.\<close>

definition assign_sub ::
  "(cell \<Rightarrow> cell \<Rightarrow> cell) \<Rightarrow> 'i frame \<Rightarrow> string \<Rightarrow> string \<Rightarrow> string \<Rightarrow> 'i frame" where
  "assign_sub sub df c a b =
     \<lparr>colnames = (if c \<in> set (colnames df) then colnames df else colnames df @ [c]),
      rows = map (\<lambda>(i, r).
                (i, if c \<in> fst ` set r
                    then map (\<lambda>(x, v). if x = c then (x, sub (cell_at r a) (cell_at r b)) else (x, v)) r
                    else r @ [(c, sub (cell_at r a) (cell_at r b))]))
               (rows df)\<rparr>"

definition head :: "nat \<Rightarrow> 'i frame \<Rightarrow> 'i frame" where
  "head n df = df\<lparr>rows := take n (rows df)\<rparr>"

text \<open>\<^verbatim>\<open>df.values\<close>: the cells of each row in column order.\<close>

definition frame_values :: "'i frame \<Rightarrow> cell list list" where
  "frame_values df = map (\<lambda>(i, r). map (cell_at r) (colnames df)) (rows df)"

definition index_values :: "'i frame \<Rightarrow> 'i list" where
  "index_values df = map fst (rows df)"

text \<open>\<^verbatim>\<open>series.loc[a:b]\<close> on an index in ascending order: the entries from a to b,
  both ends included. The dates of the model have no bound: a bound that pandas cannot
  hold as a timestamp (a year before 1677 or after 2262), for which it raises, is not
  modelled.\<close>

definition loc_slice :: "'i::linorder \<Rightarrow> 'i \<Rightarrow> 'i series \<Rightarrow> 'i series" where
  "loc_slice a b s = filter (\<lambda>(i, v). a \<le> i \<and> i \<le> b) s"

text \<open>\<^verbatim>\<open>df.sort_index(ascending=True)\<close>. On an index without duplicates every sorting
  algorithm returns this list.\<close>

definition sort_index :: "'i::linorder frame \<Rightarrow> 'i frame" where
  "sort_index df = df\<lparr>rows := sort_key fst (rows df)\<rparr>"

text \<open>\<^verbatim>\<open>df.rename(columns=mapping)\<close>: labels of the mapping are replaced, labels that
  the frame does not have are ignored (pandas' default \<^verbatim>\<open>errors='ignore'\<close>), so the
  call raises nothing.\<close>

definition rename_label :: "(string \<times> string) list \<Rightarrow> string \<Rightarrow> string" where
  "rename_label m c = (case map_of m c of None \<Rightarrow> c | Some n \<Rightarrow> n)"

definition rename :: "'i frame \<Rightarrow> (string \<times> string) list \<Rightarrow> py_exception + 'i frame" where
  "rename df m =
     Inr \<lparr>colnames = map (rename_label m) (colnames df),
          rows = map (\<lambda>(i, r). (i, map (\<lambda>(c, v). (rename_label m c, v)) r)) (rows df)\<rparr>"

text \<open>
  \<^verbatim>\<open>df.astype(dtype=mapping)\<close>. pandas first checks that every key of the mapping is
  a column (\<^verbatim>\<open>KeyError\<close> otherwise), then casts the columns. A dtype string other
  than these two is \<^verbatim>\<open>TypeError\<close> (data type not understood); a float becomes an
  integer by truncation, and NaN and the infinities cannot become an integer
  (\<^verbatim>\<open>ValueError\<close>). The integer of the model is unbounded: a float outside
  the range of int64 is not cast as numpy casts it.
\<close>

definition trunc_int :: "rat \<Rightarrow> int" where
  "trunc_int r = (if 0 \<le> r then \<lfloor>r\<rfloor> else \<lceil>r\<rceil>)"

fun cast_cell :: "string \<Rightarrow> cell \<Rightarrow> py_exception + cell" where
  "cast_cell ty (Float64 r) =
     (if ty = ''float'' then Inr (Float64 r)
      else if ty = ''int'' then Inr (Int64 (trunc_int r)) else Inl TypeError)"
| "cast_cell ty NaN =
     (if ty = ''float'' then Inr NaN
      else if ty = ''int'' then Inl ValueError else Inl TypeError)"
| "cast_cell ty PosInf =
     (if ty = ''float'' then Inr PosInf
      else if ty = ''int'' then Inl ValueError else Inl TypeError)"
| "cast_cell ty NegInf =
     (if ty = ''float'' then Inr NegInf
      else if ty = ''int'' then Inl ValueError else Inl TypeError)"
| "cast_cell ty (Int64 i) =
     (if ty = ''float'' then Inr (Float64 (of_int i))
      else if ty = ''int'' then Inr (Int64 i) else Inl TypeError)"

definition cast_row :: "string \<Rightarrow> string \<Rightarrow> (string \<times> cell) list \<Rightarrow> py_exception + (string \<times> cell) list" where
  "cast_row c ty r =
     traverse (\<lambda>(x, v). if x = c then (case cast_cell ty v of Inl e \<Rightarrow> Inl e | Inr w \<Rightarrow> Inr (x, w))
                         else Inr (x, v)) r"

definition cast_column :: "'i frame \<Rightarrow> string \<times> string \<Rightarrow> py_exception + 'i frame" where
  "cast_column df ct =
     (case ct of (c, ty) \<Rightarrow>
        if ty \<noteq> ''float'' \<and> ty \<noteq> ''int'' then Inl TypeError
        else (case traverse (\<lambda>(i, r). case cast_row c ty r of Inl e \<Rightarrow> Inl e | Inr r' \<Rightarrow> Inr (i, r'))
                      (rows df) of
                Inl e \<Rightarrow> Inl e
              | Inr rs \<Rightarrow> Inr (df\<lparr>rows := rs\<rparr>)))"

fun cast_columns :: "'i frame \<Rightarrow> (string \<times> string) list \<Rightarrow> py_exception + 'i frame" where
  "cast_columns df [] = Inr df"
| "cast_columns df (ct # cts) =
     (case cast_column df ct of Inl e \<Rightarrow> Inl e | Inr df' \<Rightarrow> cast_columns df' cts)"

definition astype :: "'i frame \<Rightarrow> (string \<times> string) list \<Rightarrow> py_exception + 'i frame" where
  "astype df dtypes =
     (case find (\<lambda>(c, ty). c \<notin> set (colnames df)) dtypes of
        Some (c, ty) \<Rightarrow> Inl (KeyError c)
      | None \<Rightarrow> cast_columns df dtypes)"

section \<open>The library calls that the model takes as parameters\<close>

text \<open>
  What these calls of pandas, of Python and of the operating system return is not
  written in the repository. The model takes them as the fields of one record, and a
  theorem names the property of a field that it needs.
  \<^item> \<open>pd_to_float\<close>: the float64 that a string converts to (a finite value, NaN or an
    infinity), \<open>None\<close> when the conversion raises \<^verbatim>\<open>ValueError\<close>;
  \<^item> \<open>pd_sub\<close>: the difference of two cells as numpy computes it. On float64 it is
    rounded, so that it need not be the difference of the two rationals, and two rows
    whose exact differences are equal need not have equal cells (nor the converse);
  \<^item> \<open>pd_to_datetime\<close>: the conversion of an index label to datetime64, \<open>None\<close> when it
    raises \<^verbatim>\<open>ValueError\<close>;
  \<^item> \<open>pd_from_dict_other\<close>: \<^verbatim>\<open>DataFrame.from_dict(j, orient='index', dtype=float)\<close>
    on a JSON value that is not an object of objects of strings;
  \<^item> \<open>pd_sort_values\<close>: \<^verbatim>\<open>df.sort_values(by, ascending=False)\<close>, called with no
    \<^verbatim>\<open>kind\<close>: the algorithm is pandas' default, quicksort, which is not stable, so
    the order in which rows of equal value come out is not fixed;
  \<^item> \<open>pd_groupby_year_sum\<close>: \<^verbatim>\<open>s.groupby(pd.Grouper(level=0, freq='1YS')).sum()\<close>
    with the index rewritten by \<^verbatim>\<open>strftime('%Y')\<close>;
  \<^item> \<open>pd_resample_qs_sum\<close>: \<^verbatim>\<open>s.resample('QS').sum()\<close>;
  \<^item> \<open>pd_loc_labels\<close>, \<open>pd_loc_years\<close>: \<^verbatim>\<open>s.loc[a:b]\<close> with two strings, on an index
    of strings and on an index of dates;
  \<^item> \<open>pd_groupby_month_mean\<close>: \<^verbatim>\<open>df.groupby(pd.Grouper(level=0, freq='MS')).mean()\<close>;
  \<^item> \<open>pd_to_csv\<close>: \<^verbatim>\<open>df.to_csv(path)\<close> on the state \<open>'fs\<close> of the file system.
\<close>

record 'fs pandas =
  pd_to_float :: "string \<Rightarrow> cell option"
  pd_sub :: "cell \<Rightarrow> cell \<Rightarrow> cell"
  pd_to_datetime :: "string \<Rightarrow> date option"
  pd_from_dict_other :: "json \<Rightarrow> py_exception + string frame"
  pd_sort_values :: "string \<Rightarrow> date frame \<Rightarrow> date frame"
  pd_groupby_year_sum :: "date series \<Rightarrow> string series"
  pd_resample_qs_sum :: "date series \<Rightarrow> date series"
  pd_loc_labels :: "string \<Rightarrow> string \<Rightarrow> string series \<Rightarrow> py_exception + string series"
  pd_loc_years :: "string \<Rightarrow> string \<Rightarrow> date series \<Rightarrow> py_exception + date series"
  pd_groupby_month_mean :: "date frame \<Rightarrow> date frame"
  pd_to_csv :: "date frame \<Rightarrow> string \<Rightarrow> 'fs \<Rightarrow> py_exception + 'fs"

section \<open>Building a table from a data block\<close>

text \<open>
  The data block that the API documents: an object from date strings to objects from
  field names to strings.
\<close>

type_synonym block = "(string \<times> (string \<times> string) list) list"

definition as_block :: "json \<Rightarrow> block option" where
  "as_block j =
     (case j of
        JObj kvs \<Rightarrow>
          traverse_option
            (\<lambda>(k, v). case v of
                JObj fs \<Rightarrow>
                  (case traverse_option (\<lambda>(f, s). case s of JStr x \<Rightarrow> Some (f, x) | _ \<Rightarrow> None) fs of
                     None \<Rightarrow> None
                   | Some r \<Rightarrow> Some (k, r))
              | _ \<Rightarrow> None) kvs
      | _ \<Rightarrow> None)"

text \<open>
  \<^verbatim>\<open>pd.DataFrame.from_dict(block, orient='index', dtype=float)\<close>: the columns are
  the field names in the order in which the block first shows them, a date with no
  field at all gives no row, a field that a row lacks is NaN there, and a string that is
  not a float raises \<^verbatim>\<open>ValueError\<close>. The rows are kept in the order of the dict;
  \<open>sort_index\<close> follows.
\<close>

definition from_dict_row ::
  "'fs pandas \<Rightarrow> string list \<Rightarrow> (string \<times> string) list \<Rightarrow> py_exception + (string \<times> cell) list" where
  "from_dict_row P cols r =
     traverse (\<lambda>c. case map_of r c of
                 None \<Rightarrow> Inr (c, NaN)
               | Some s \<Rightarrow> (case pd_to_float P s of
                             None \<Rightarrow> Inl ValueError
                           | Some v \<Rightarrow> Inr (c, v))) cols"

definition from_dict_block :: "'fs pandas \<Rightarrow> block \<Rightarrow> py_exception + string frame" where
  "from_dict_block P blk =
     (let cols = rev (remdups (rev (concat (map (\<lambda>(k, r). map fst r) blk))))
      in case traverse (\<lambda>(k, r). case from_dict_row P cols r of
                                    Inl e \<Rightarrow> Inl e
                                  | Inr cells \<Rightarrow> Inr (k, cells))
                (filter (\<lambda>(k, r). r \<noteq> []) blk) of
           Inl e \<Rightarrow> Inl e
         | Inr rs \<Rightarrow> Inr \<lparr>colnames = cols, rows = rs\<rparr>)"

text \<open>On \<^verbatim>\<open>None\<close>, a boolean or a number \<^verbatim>\<open>from_dict\<close> raises \<^verbatim>\<open>TypeError\<close>: it
  starts with \<^verbatim>\<open>len(data)\<close>.\<close>

definition from_dict :: "'fs pandas \<Rightarrow> json \<Rightarrow> py_exception + string frame" where
  "from_dict P j =
     (case j of
        JNull \<Rightarrow> Inl TypeError
      | JBool b \<Rightarrow> Inl TypeError
      | JNum x \<Rightarrow> Inl TypeError
      | _ \<Rightarrow> (case as_block j of
                Some blk \<Rightarrow> from_dict_block P blk
              | None \<Rightarrow> pd_from_dict_other P j))"

text \<open>\<^verbatim>\<open>data_frame.index.astype("datetime64[ns]")\<close>.\<close>

definition index_astype_datetime :: "'fs pandas \<Rightarrow> string frame \<Rightarrow> py_exception + date frame" where
  "index_astype_datetime P df =
     (case traverse (\<lambda>(i, r). case pd_to_datetime P i of
                                  None \<Rightarrow> Inl ValueError
                                | Some d \<Rightarrow> Inr (d, r)) (rows df) of
        Inl e \<Rightarrow> Inl e
      | Inr rs \<Rightarrow> Inr \<lparr>colnames = colnames df, rows = rs\<rparr>)"

text \<open>\<^verbatim>\<open>TimeSeriesFinanceClient._data_field2name_type\<close>: raw field, column name, dtype.\<close>

definition data_field2name_type :: "(string \<times> string \<times> string) list" where
  "data_field2name_type =
     [(''1. open'', ''open'', ''float''),
      (''2. high'', ''high'', ''float''),
      (''3. low'', ''low'', ''float''),
      (''4. close'', ''close'', ''float''),
      (''5. adjusted close'', ''aclose'', ''float''),
      (''6. volume'', ''volume'', ''int''),
      (''7. dividend amount'', ''dividend'', ''float''),
      (''8. split coefficient'', ''splitc'', ''int'')]"

text \<open>
  The body of the loop of \<^verbatim>\<open>_build_data_frame\<close> for one data block. Each
  \<^verbatim>\<open>try\<close> covers one call and catches one class: \<^verbatim>\<open>TypeError\<close> around
  \<^verbatim>\<open>from_dict\<close>, \<^verbatim>\<open>KeyError\<close> around \<^verbatim>\<open>rename\<close>, \<^verbatim>\<open>TypeError\<close> around
  \<^verbatim>\<open>astype\<close>; any other exception leaves the method as it is. The conversion of the
  index stands outside every \<^verbatim>\<open>try\<close>.
\<close>

definition build_table :: "'fs pandas \<Rightarrow> json \<Rightarrow> py_exception + date frame" where
  "build_table P j =
     (case from_dict P j of
        Inl e \<Rightarrow>
          if e = TypeError then Inl (FinanceClientInvalidData ''Data json not specified'')
          else Inl e
      | Inr df0 \<Rightarrow>
          (case rename df0 (map (\<lambda>(key, name, ty). (key, name)) data_field2name_type) of
             Inl e \<Rightarrow>
               (case e of
                  KeyError k \<Rightarrow> Inl (FinanceClientInvalidData ''Not found in axis'')
                | _ \<Rightarrow> Inl e)
           | Inr df1 \<Rightarrow>
               (case astype df1 (map (\<lambda>(key, name, ty). (name, ty)) data_field2name_type) of
                  Inl e \<Rightarrow>
                    if e = TypeError then Inl (FinanceClientInvalidData ''Data type not understood'')
                    else Inl e
                | Inr df2 \<Rightarrow>
                    (case index_astype_datetime P df2 of
                       Inl e \<Rightarrow> Inl e
                     | Inr df3 \<Rightarrow> Inr (sort_index df3)))))"

section \<open>The client\<close>

record response =
  url :: string
  status_code :: int
  json_body :: "json option"

text \<open>\<open>json_body\<close> is what \<^verbatim>\<open>response.json()\<close> returns, \<open>None\<close> when it raises.\<close>

record client =
  ticker :: "string list"
  api_key :: string
  json_data :: "json list"
  json_metadata :: "json list"
  data_frame :: "date frame list"

text \<open>\<^verbatim>\<open>requests.get\<close> is a parameter: for a URL it raises or returns a response.\<close>

type_synonym transport = "string \<Rightarrow> py_exception + response"

definition build_base_query_url :: string where
  "build_base_query_url = ''https://www.alphavantage.co/query?''"

definition build_base_query_url_params :: "string \<Rightarrow> string \<Rightarrow> string" where
  "build_base_query_url_params key t =
     ''function=TIME_SERIES_DAILY_ADJUSTED&symbol='' @ t @ ''&outputsize=full&apikey='' @ key"

definition build_query_metadata_key :: string where
  "build_query_metadata_key = ''Meta Data''"

definition build_query_data_key :: string where
  "build_query_data_key = ''Time Series (Daily)''"

text \<open>
  \<^verbatim>\<open>_query_api\<close>. When \<^verbatim>\<open>requests.get\<close> raises, the handler formats its message
  from \<^verbatim>\<open>response\<close>, which was never assigned: the handler itself raises
  \<^verbatim>\<open>UnboundLocalError\<close>. When the status is not 200 the \<^verbatim>\<open>assert\<close> fails and the
  handler raises \<^verbatim>\<open>FinanceClientAPIError\<close>.
\<close>

definition query_api :: "transport \<Rightarrow> string \<Rightarrow> string \<Rightarrow> py_exception + response" where
  "query_api get key t =
     (case get (build_base_query_url @ build_base_query_url_params key t) of
        Inl e \<Rightarrow> Inl (UnboundLocalError ''response'')
      | Inr response \<Rightarrow>
          if status_code response = 200 then Inr response
          else Inl (FinanceClientAPIError
                 (''Unsuccessful API access [URL: '' @ url response @ '', status: ''
                    @ str_int (status_code response) @ '']'')))"

definition process_query_response :: "client \<Rightarrow> response \<Rightarrow> py_exception + client" where
  "process_query_response c response =
     (case json_body response of
        None \<Rightarrow> Inl (FinanceClientInvalidData ''Invalid data'')
      | Some json_data_downloaded \<Rightarrow>
          (case getitem_json json_data_downloaded build_query_metadata_key of
             Inl e \<Rightarrow> Inl (FinanceClientInvalidData ''Invalid data'')
           | Inr md \<Rightarrow>
               (case getitem_json json_data_downloaded build_query_data_key of
                  Inl e \<Rightarrow> Inl (FinanceClientInvalidData ''Invalid data'')
                | Inr d \<Rightarrow>
                    Inr (c\<lparr>json_metadata := json_metadata c @ [md],
                           json_data := json_data c @ [d]\<rparr>))))"

text \<open>\<^verbatim>\<open>_validate_query_data\<close>: \<^verbatim>\<open>assert self._json_metadata[-1]["2. Symbol"] == ticker\<close>
  under \<^verbatim>\<open>except Exception\<close>.\<close>

definition symbol_not_found :: string where
  "symbol_not_found = ''Metadata field '' @ [CHR 0x27] @ ''2. Symbol'' @ [CHR 0x27] @ '' not found''"

definition validate_query_data :: "client \<Rightarrow> string \<Rightarrow> py_exception + unit" where
  "validate_query_data c t =
     (if json_metadata c = [] then Inl (FinanceClientInvalidData symbol_not_found)
      else
        (case getitem_json (last (json_metadata c)) ''2. Symbol'' of
           Inl e \<Rightarrow> Inl (FinanceClientInvalidData symbol_not_found)
         | Inr v \<Rightarrow>
             if v = JStr t then Inr ()
             else Inl (FinanceClientInvalidData symbol_not_found)))"

text \<open>
  The loop of \<^verbatim>\<open>FinanceClient.__init__\<close> over the tickers: query, process, validate.
  The second component is the trace of the URLs handed to \<^verbatim>\<open>requests.get\<close> so far.
\<close>

fun init_loop ::
  "transport \<Rightarrow> string list \<Rightarrow> client \<Rightarrow> string list \<Rightarrow> (py_exception + client) \<times> string list" where
  "init_loop get [] c tr = (Inr c, tr)"
| "init_loop get (t # ts) c tr =
     (let tr' = tr @ [build_base_query_url @ build_base_query_url_params (api_key c) t]
      in case query_api get (api_key c) t of
           Inl e \<Rightarrow> (Inl e, tr')
         | Inr response \<Rightarrow>
             (case process_query_response c response of
                Inl e \<Rightarrow> (Inl e, tr')
              | Inr c' \<Rightarrow>
                  (case validate_query_data c' t of
                     Inl e \<Rightarrow> (Inl e, tr')
                   | Inr u \<Rightarrow> init_loop get ts c' tr')))"

text \<open>\<^verbatim>\<open>_build_data_frame\<close>: \<^verbatim>\<open>for i, tick in enumerate(self._ticker)\<close>, reading
  \<^verbatim>\<open>self._json_data[i]\<close> and appending the table.\<close>

fun build_data_frame_loop :: "'fs pandas \<Rightarrow> (nat \<times> string) list \<Rightarrow> client \<Rightarrow> py_exception + client" where
  "build_data_frame_loop P [] c = Inr c"
| "build_data_frame_loop P ((i, tick) # rest) c =
     (case py_nth (json_data c) i of
        Inl e \<Rightarrow> Inl e
      | Inr j \<Rightarrow>
          (case build_table P j of
             Inl e \<Rightarrow> Inl e
           | Inr df \<Rightarrow> build_data_frame_loop P rest (c\<lparr>data_frame := data_frame c @ [df]\<rparr>)))"

definition build_data_frame :: "'fs pandas \<Rightarrow> client \<Rightarrow> py_exception + client" where
  "build_data_frame P c = build_data_frame_loop P (enumerate 0 (ticker c)) c"

text \<open>
  \<^verbatim>\<open>TimeSeriesFinanceClient(ticker, api_key)\<close>: the key configuration, the loop over
  the tickers, then the tables. \<open>env\<close> is the value of the environment variable
  \<^verbatim>\<open>TEII_FINANCE_API_KEY\<close>. The result comes with the trace of the network calls made.
\<close>

definition invalid_api_key :: py_exception where
  "invalid_api_key = FinanceClientInvalidAPIKey ''TimeSeriesFinanceClient operation failed''"

definition time_series_finance_client ::
  "'fs pandas \<Rightarrow> transport \<Rightarrow> string option \<Rightarrow> string list \<Rightarrow> py_value
     \<Rightarrow> (py_exception + client) \<times> string list" where
  "time_series_finance_client P get env tickers key =
     (let k = (if \<not> truthy key then getenv env else key)
      in if \<not> truthy k \<or> \<not> is_str k then (Inl invalid_api_key, [])
         else
           (case init_loop get tickers
                   \<lparr>ticker = tickers, api_key = str_of k, json_data = [], json_metadata = [],
                    data_frame = []\<rparr> [] of
              (Inl e, tr) \<Rightarrow> (Inl e, tr)
            | (Inr c, tr) \<Rightarrow> (build_data_frame P c, tr)))"

section \<open>The queries\<close>

text \<open>
  \<^verbatim>\<open>daily_price\<close> and \<^verbatim>\<open>daily_volume\<close> have the same body, on the columns
  \<^verbatim>\<open>close\<close> and \<^verbatim>\<open>volume\<close>: for each table, take the column, then, when both dates
  are given, check \<^verbatim>\<open>from_date <= to_date\<close> and slice.
\<close>

fun daily_loop ::
  "string \<Rightarrow> date option \<Rightarrow> date option \<Rightarrow> date frame list \<Rightarrow> date series list
     \<Rightarrow> py_exception + date series list" where
  "daily_loop col from_date to_date [] ser = Inr ser"
| "daily_loop col from_date to_date (df # dfs) ser =
     (case getitem df col of
        Inl e \<Rightarrow> Inl e
      | Inr series \<Rightarrow>
          (case (from_date, to_date) of
             (Some f, Some t) \<Rightarrow>
               if f \<le> t then daily_loop col from_date to_date dfs (ser @ [loc_slice f t series])
               else Inl (FinanceClientParamError ''Dates are incorrect'')
           | _ \<Rightarrow> daily_loop col from_date to_date dfs (ser @ [series])))"

definition daily_price :: "client \<Rightarrow> date option \<Rightarrow> date option \<Rightarrow> py_exception + date series list" where
  "daily_price c from_date to_date = daily_loop ''close'' from_date to_date (data_frame c) []"

definition daily_volume :: "client \<Rightarrow> date option \<Rightarrow> date option \<Rightarrow> py_exception + date series list" where
  "daily_volume c from_date to_date = daily_loop ''volume'' from_date to_date (data_frame c) []"

fun yearly_dividends_loop ::
  "'fs pandas \<Rightarrow> int option \<Rightarrow> int option \<Rightarrow> date frame list \<Rightarrow> string series list
     \<Rightarrow> py_exception + string series list" where
  "yearly_dividends_loop P from_year to_year [] ser = Inr ser"
| "yearly_dividends_loop P from_year to_year (df # dfs) ser =
     (case getitem df ''dividend'' of
        Inl e \<Rightarrow> Inl e
      | Inr s \<Rightarrow>
          (let series = pd_groupby_year_sum P s
           in case (from_year, to_year) of
                (Some f, Some t) \<Rightarrow>
                  if f \<le> t then
                    (case pd_loc_labels P (str_int f) (str_int t) series of
                       Inl e \<Rightarrow> Inl e
                     | Inr series' \<Rightarrow> yearly_dividends_loop P from_year to_year dfs (ser @ [series']))
                  else Inl (FinanceClientParamError ''Dates are incorrect'')
              | _ \<Rightarrow> yearly_dividends_loop P from_year to_year dfs (ser @ [series])))"

definition yearly_dividends ::
  "'fs pandas \<Rightarrow> client \<Rightarrow> int option \<Rightarrow> int option \<Rightarrow> py_exception + string series list" where
  "yearly_dividends P c from_year to_year =
     yearly_dividends_loop P from_year to_year (data_frame c) []"

fun yearly_dividends_per_quarter_loop ::
  "'fs pandas \<Rightarrow> int option \<Rightarrow> int option \<Rightarrow> date frame list \<Rightarrow> date series list
     \<Rightarrow> py_exception + date series list" where
  "yearly_dividends_per_quarter_loop P from_year to_year [] ser = Inr ser"
| "yearly_dividends_per_quarter_loop P from_year to_year (df # dfs) ser =
     (case getitem df ''dividend'' of
        Inl e \<Rightarrow> Inl e
      | Inr s \<Rightarrow>
          (let series = pd_resample_qs_sum P s
           in case (from_year, to_year) of
                (Some f, Some t) \<Rightarrow>
                  if f \<le> t then
                    (case pd_loc_years P (str_int f) (str_int t) series of
                       Inl e \<Rightarrow> Inl e
                     | Inr series' \<Rightarrow>
                         yearly_dividends_per_quarter_loop P from_year to_year dfs (ser @ [series']))
                  else Inl (FinanceClientParamError ''Dates are incorrect'')
              | _ \<Rightarrow> yearly_dividends_per_quarter_loop P from_year to_year dfs (ser @ [series])))"

definition yearly_dividends_per_quarter ::
  "'fs pandas \<Rightarrow> client \<Rightarrow> int option \<Rightarrow> int option \<Rightarrow> py_exception + date series list" where
  "yearly_dividends_per_quarter P c from_year to_year =
     yearly_dividends_per_quarter_loop P from_year to_year (data_frame c) []"

text \<open>
  \<^verbatim>\<open>highest_daily_variation\<close>, the body of its loop for one table: the columns
  \<^verbatim>\<open>high\<close> and \<^verbatim>\<open>low\<close>, the new column \<^verbatim>\<open>high-low\<close>, the descending sort on it,
  \<^verbatim>\<open>head(1)\<close>, and the tuple of the index label with the three cells of the row.
\<close>

definition highest_daily_variation_table ::
  "'fs pandas \<Rightarrow> date frame \<Rightarrow> py_exception + date \<times> cell \<times> cell \<times> cell" where
  "highest_daily_variation_table P df =
     (case getitems df [''high'', ''low''] of
        Inl e \<Rightarrow> Inl e
      | Inr series \<Rightarrow>
          (let series_highest =
                 head 1 (pd_sort_values P ''high-low''
                           (assign_sub (pd_sub P) series ''high-low'' ''high'' ''low''))
           in case py_nth (index_values series_highest) 0 of
                Inl e \<Rightarrow> Inl e
              | Inr i \<Rightarrow>
                  (case py_nth (frame_values series_highest) 0 of
                     Inl e \<Rightarrow> Inl e
                   | Inr v0 \<Rightarrow>
                       (case (py_nth v0 0, py_nth v0 1, py_nth v0 2) of
                          (Inr a, Inr b, Inr s) \<Rightarrow> Inr (i, a, b, s)
                        | _ \<Rightarrow> Inl IndexError))))"

definition highest_daily_variation ::
  "'fs pandas \<Rightarrow> client \<Rightarrow> py_exception + (date \<times> cell \<times> cell \<times> cell) list" where
  "highest_daily_variation P c = traverse (highest_daily_variation_table P) (data_frame c)"

definition highest_monthly_mean_variation_table ::
  "'fs pandas \<Rightarrow> date frame \<Rightarrow> py_exception + date \<times> cell" where
  "highest_monthly_mean_variation_table P df =
     (case getitems df [''high'', ''low''] of
        Inl e \<Rightarrow> Inl e
      | Inr series \<Rightarrow>
          (let series_highest =
                 head 1 (pd_sort_values P ''mean-variation''
                           (pd_groupby_month_mean P
                              (assign_sub (pd_sub P) series ''mean-variation'' ''high'' ''low'')))
           in case py_nth (index_values series_highest) 0 of
                Inl e \<Rightarrow> Inl e
              | Inr i \<Rightarrow>
                  (case py_nth (frame_values series_highest) 0 of
                     Inl e \<Rightarrow> Inl e
                   | Inr v0 \<Rightarrow>
                       (case py_nth v0 2 of
                          Inl e \<Rightarrow> Inl e
                        | Inr m \<Rightarrow> Inr (i, m)))))"

definition highest_monthly_mean_variation ::
  "'fs pandas \<Rightarrow> client \<Rightarrow> py_exception + (date \<times> cell) list" where
  "highest_monthly_mean_variation P c =
     traverse (highest_monthly_mean_variation_table P) (data_frame c)"

definition to_pandas :: "client \<Rightarrow> date frame list" where
  "to_pandas c = data_frame c"

text \<open>
  \<^verbatim>\<open>to_csv\<close>: \<^verbatim>\<open>self._data_frame[0].to_csv(path2file)\<close> under
  \<^verbatim>\<open>except (IOError, PermissionError)\<close>; the index 0 is read inside the \<^verbatim>\<open>try\<close>,
  and \<^verbatim>\<open>IndexError\<close> is not caught. The result is the path and the new state of the
  file system.
\<close>

definition unable_to_write :: "string \<Rightarrow> string" where
  "unable_to_write path2file =
     ''Unable to write json data into file '' @ [CHR 0x27] @ path2file @ [CHR 0x27]"

definition to_csv :: "'fs pandas \<Rightarrow> client \<Rightarrow> string \<Rightarrow> 'fs \<Rightarrow> py_exception + string \<times> 'fs" where
  "to_csv P c path2file fs =
     (case py_nth (data_frame c) 0 of
        Inl e \<Rightarrow> Inl e
      | Inr df \<Rightarrow>
          (case pd_to_csv P df path2file fs of
             Inl e \<Rightarrow>
               if is_OSError e then Inl (FinanceClientIOError (unable_to_write path2file))
               else Inl e
           | Inr fs' \<Rightarrow> Inr (path2file, fs')))"

section \<open>Dates in the format of the API, and an instance of the library\<close>

text \<open>
  The keys of a data block are dates written \<^verbatim>\<open>YYYY-MM-DD\<close>. \<open>iso_date\<close> reads such
  a key.
\<close>

definition digit_val :: "char \<Rightarrow> nat option" where
  "digit_val c = (if c \<in> set ''0123456789'' then Some (of_char c - 48) else None)"

fun digits_value :: "nat \<Rightarrow> string \<Rightarrow> nat option" where
  "digits_value acc [] = Some acc"
| "digits_value acc (c # cs) =
     (case digit_val c of None \<Rightarrow> None | Some d \<Rightarrow> digits_value (10 * acc + d) cs)"

definition leap_year :: "nat \<Rightarrow> bool" where
  "leap_year y = (y mod 4 = 0 \<and> (y mod 100 \<noteq> 0 \<or> y mod 400 = 0))"

definition days_in_month :: "nat \<Rightarrow> nat \<Rightarrow> nat" where
  "days_in_month y m =
     (if m = 2 then (if leap_year y then 29 else 28)
      else if m = 4 \<or> m = 6 \<or> m = 9 \<or> m = 11 then 30 else 31)"

definition iso_date :: "string \<Rightarrow> date option" where
  "iso_date s =
     (if length s = 10 \<and> s ! 4 = CHR ''-'' \<and> s ! 7 = CHR ''-'' then
        (case (digits_value 0 (take 4 s), digits_value 0 (take 2 (drop 5 s)),
               digits_value 0 (drop 8 s)) of
           (Some y, Some m, Some d) \<Rightarrow>
             if 1 \<le> m \<and> m \<le> 12 \<and> 1 \<le> d \<and> d \<le> days_in_month y m then Some (y, m, d)
             else None
         | _ \<Rightarrow> None)
      else None)"

text \<open>
  The order in which a sort compares the cells of a column: \<open>cell_key\<close> sends a
  cell to a pair that is ordered lexicographically, the negative infinity below every
  finite value and the positive infinity above. NaN has no place in this order; a sort
  sets the rows with NaN apart.
\<close>

fun cell_key :: "cell \<Rightarrow> int \<times> rat" where
  "cell_key (Float64 r) = (0, r)"
| "cell_key (Int64 i) = (0, of_int i)"
| "cell_key PosInf = (1, 0)"
| "cell_key NegInf = (- 1, 0)"
| "cell_key NaN = (0, 0)"


text \<open>
  An instance of the library for running the model on small inputs.
  \<^item> \<open>float_literal\<close>: decimal literals with an integer part, and the three words for
    NaN and the infinities, as floats.
  \<^item> \<open>sub_exact\<close>: the difference without rounding. It is what float64 subtraction
    returns whenever the exact difference is a float64, as for the integers, halves and
    quarters of the inputs below.
  \<^item> \<open>sort_values_reversed\<close>: a descending sort that is not stable: the rows in
    ascending order of the column, reversed, so that of two rows with the same value
    the later one comes first; rows with NaN come last.
  \<^item> \<open>iso_date\<close> for the index, sums and means that skip NaN over the years, quarters
    and months from the first row to the last, and a file system that maps a path to the
    table written there.
\<close>

fun sub_exact :: "cell \<Rightarrow> cell \<Rightarrow> cell" where
  "sub_exact (Float64 a) (Float64 b) = Float64 (a - b)"
| "sub_exact (Int64 a) (Int64 b) = Int64 (a - b)"
| "sub_exact (Float64 a) (Int64 b) = Float64 (a - of_int b)"
| "sub_exact (Int64 a) (Float64 b) = Float64 (of_int a - b)"
| "sub_exact NaN b = NaN"
| "sub_exact a NaN = NaN"
| "sub_exact PosInf PosInf = NaN"
| "sub_exact NegInf NegInf = NaN"
| "sub_exact PosInf b = PosInf"
| "sub_exact NegInf b = NegInf"
| "sub_exact a PosInf = NegInf"
| "sub_exact a NegInf = PosInf"

definition sort_values_reversed :: "string \<Rightarrow> 'i frame \<Rightarrow> 'i frame" where
  "sort_values_reversed by df =
     df\<lparr>rows := rev (sort_key (\<lambda>(i, r). cell_key (cell_at r by))
                         (filter (\<lambda>(i, r). cell_at r by \<noteq> NaN) (rows df)))
                  @ filter (\<lambda>(i, r). cell_at r by = NaN) (rows df)\<rparr>"

definition dec_float :: "string \<Rightarrow> rat option" where
  "dec_float s =
     (let neg = (take 1 s = ''-'');
          body = (if take 1 s = ''-'' \<or> take 1 s = ''+'' then drop 1 s else s);
          ip = takeWhile (\<lambda>c. c \<noteq> CHR ''.'') body;
          fp = drop 1 (dropWhile (\<lambda>c. c \<noteq> CHR ''.'') body)
      in if ip = [] then None
         else (case (digits_value 0 ip, digits_value 0 fp) of
                 (Some a, Some b) \<Rightarrow>
                   Some ((if neg then - 1 else 1) * (of_nat a + of_nat b / 10 ^ length fp))
               | _ \<Rightarrow> None))"

definition float_literal :: "string \<Rightarrow> cell option" where
  "float_literal s =
     (if s = ''nan'' then Some NaN
      else if s = ''inf'' then Some PosInf
      else if s = ''-inf'' then Some NegInf
      else map_option Float64 (dec_float s))"

definition sum_cells :: "cell list \<Rightarrow> cell" where
  "sum_cells vs =
     (let ws = filter (\<lambda>v. v \<noteq> NaN) vs
      in if PosInf \<in> set ws \<and> NegInf \<in> set ws then NaN
         else if PosInf \<in> set ws then PosInf
         else if NegInf \<in> set ws then NegInf
         else Float64 (sum_list (map (\<lambda>v. snd (cell_key v)) ws)))"

definition mean_cells :: "cell list \<Rightarrow> cell" where
  "mean_cells vs =
     (let ws = filter (\<lambda>v. v \<noteq> NaN) vs
      in if ws = [] then NaN
         else (case sum_cells ws of
                 Float64 x \<Rightarrow> Float64 (x / of_nat (length ws))
               | v \<Rightarrow> v))"

definition bins :: "nat list \<Rightarrow> nat list" where
  "bins ks = (case ks of [] \<Rightarrow> [] | k # ks' \<Rightarrow> [fold min ks' k ..< Suc (fold max ks' k)])"

definition year_label :: "nat \<Rightarrow> string" where
  "year_label y = replicate (4 - length (str_nat y)) CHR ''0'' @ str_nat y"

definition groupby_year_sum :: "date series \<Rightarrow> string series" where
  "groupby_year_sum s =
     map (\<lambda>y. (year_label y, sum_cells (map snd (filter (\<lambda>((y', m, d), v). y' = y) s))))
       (bins (map (\<lambda>((y, m, d), v). y) s))"

definition quarter_of :: "date \<Rightarrow> nat" where
  "quarter_of dt = (case dt of (y, m, d) \<Rightarrow> 4 * y + (m - 1) div 3)"

definition resample_qs_sum :: "date series \<Rightarrow> date series" where
  "resample_qs_sum s =
     map (\<lambda>q. ((q div 4, 3 * (q mod 4) + 1, 1),
               sum_cells (map snd (filter (\<lambda>(dt, v). quarter_of dt = q) s))))
       (bins (map (\<lambda>(dt, v). quarter_of dt) s))"

definition loc_labels :: "string \<Rightarrow> string \<Rightarrow> string series \<Rightarrow> py_exception + string series" where
  "loc_labels a b s = Inr (filter (\<lambda>(l, v). a \<le> l \<and> l \<le> b) s)"

definition loc_years :: "string \<Rightarrow> string \<Rightarrow> date series \<Rightarrow> py_exception + date series" where
  "loc_years a b s =
     (case (digits_value 0 a, digits_value 0 b) of
        (Some ya, Some yb) \<Rightarrow> Inr (filter (\<lambda>((y, m, d), v). ya \<le> y \<and> y \<le> yb) s)
      | _ \<Rightarrow> Inl (KeyError a))"

definition month_of :: "date \<Rightarrow> nat" where
  "month_of dt = (case dt of (y, m, d) \<Rightarrow> 12 * y + (m - 1))"

definition groupby_month_mean :: "date frame \<Rightarrow> date frame" where
  "groupby_month_mean df =
     \<lparr>colnames = colnames df,
      rows = map (\<lambda>k. ((k div 12, k mod 12 + 1, 1),
                      map (\<lambda>c. (c, mean_cells (map (\<lambda>(dt, r). cell_at r c)
                                                (filter (\<lambda>(dt, r). month_of dt = k) (rows df)))))
                        (colnames df)))
               (bins (map (\<lambda>(dt, r). month_of dt) (rows df)))\<rparr>"

type_synonym files = "string \<Rightarrow> date frame option"

definition write_table :: "date frame \<Rightarrow> string \<Rightarrow> files \<Rightarrow> py_exception + files" where
  "write_table df path fs = (if path = [] then Inl OSError else Inr (fs(path \<mapsto> df)))"

definition sample_pandas :: "files pandas" where
  "sample_pandas =
     \<lparr>pd_to_float = float_literal,
      pd_sub = sub_exact,
      pd_to_datetime = iso_date,
      pd_from_dict_other = (\<lambda>j. Inl AttributeError),
      pd_sort_values = sort_values_reversed,
      pd_groupby_year_sum = groupby_year_sum,
      pd_resample_qs_sum = resample_qs_sum,
      pd_loc_labels = loc_labels,
      pd_loc_years = loc_years,
      pd_groupby_month_mean = groupby_month_mean,
      pd_to_csv = write_table\<rparr>"

text \<open>
  A data block of the shape that the API documents: an object of objects of strings
  whose keys are dates written \<^verbatim>\<open>YYYY-MM-DD\<close>, no key twice, and the library reads
  each key as that date.
\<close>

definition well_formed_block :: "'fs pandas \<Rightarrow> json \<Rightarrow> bool" where
  "well_formed_block P j =
     (case as_block j of
        None \<Rightarrow> False
      | Some blk \<Rightarrow>
          distinct (map fst blk)
          \<and> list_all (\<lambda>k. iso_date k \<noteq> None \<and> pd_to_datetime P k = iso_date k) (map fst blk))"






text \<open>Whether a result is the exception \<^verbatim>\<open>FinanceClientAPIError\<close>.\<close>

fun is_api_error :: "py_exception + 'a \<Rightarrow> bool" where
  "is_api_error (Inl (FinanceClientAPIError msg)) = True"
| "is_api_error _ = False"




section \<open>Inputs for running the model\<close>

text \<open>A transport that refuses every connection, and the client that the constructor
  returns for no ticker at all.\<close>

definition get_refused :: transport where
  "get_refused u = Inl ConnectionError"

definition empty_client :: client where
  "empty_client =
     \<lparr>ticker = [], api_key = ''k'', json_data = [], json_metadata = [], data_frame = []\<rparr>"

text \<open>A response for IBM with three days, newest first as the API sends them; the
  first and the last day have the same spread between high and low.\<close>

definition fields :: "string \<Rightarrow> string \<Rightarrow> string \<Rightarrow> string \<Rightarrow> string \<Rightarrow> (string \<times> json) list" where
  "fields op hi lo cl vol =
     [(''1. open'', JStr op), (''2. high'', JStr hi), (''3. low'', JStr lo), (''4. close'', JStr cl),
      (''5. adjusted close'', JStr cl), (''6. volume'', JStr vol),
      (''7. dividend amount'', JStr ''0.0''), (''8. split coefficient'', JStr ''1.0'')]"

definition ibm_series :: json where
  "ibm_series =
     JObj [(''2021-01-06'', JObj (fields ''126.0'' ''130.5'' ''126.5'' ''129.25'' ''6000'')),
           (''2021-01-05'', JObj (fields ''125.5'' ''127'' ''124'' ''126.25'' ''5000'')),
           (''2021-01-04'', JObj (fields ''120'' ''123'' ''119'' ''122'' ''4000''))]"

definition ibm_meta :: json where
  "ibm_meta = JObj [(''1. Information'', JStr ''Daily Time Series''), (''2. Symbol'', JStr ''IBM'')]"

definition ibm_body :: json where
  "ibm_body = JObj [(''Meta Data'', ibm_meta), (''Time Series (Daily)'', ibm_series)]"

definition get_ibm :: transport where
  "get_ibm u = Inr \<lparr>url = u, status_code = 200, json_body = Some ibm_body\<rparr>"

definition get_unparsable :: transport where
  "get_unparsable u = Inr \<lparr>url = u, status_code = 200, json_body = None\<rparr>"

definition get_not_found :: transport where
  "get_not_found u = Inr \<lparr>url = u, status_code = 404, json_body = None\<rparr>"

definition ibm_url :: string where
  "ibm_url = ''https://www.alphavantage.co/query?function=TIME_SERIES_DAILY_ADJUSTED&symbol=IBM&outputsize=full&apikey=k''"

definition noticker_url :: string where
  "noticker_url = ''https://www.alphavantage.co/query?function=TIME_SERIES_DAILY_ADJUSTED&symbol=NOTICKER&outputsize=full&apikey=k''"

definition ibm_table :: "date frame" where
  "ibm_table =
     \<lparr>colnames = [''open'', ''high'', ''low'', ''close'', ''aclose'', ''volume'', ''dividend'', ''splitc''],
      rows = [((2021, 1, 4), [(''open'', Float64 120), (''high'', Float64 123), (''low'', Float64 119),
                 (''close'', Float64 122), (''aclose'', Float64 122), (''volume'', Int64 4000),
                 (''dividend'', Float64 0), (''splitc'', Int64 1)]),
              ((2021, 1, 5), [(''open'', Float64 (251 / 2)), (''high'', Float64 127), (''low'', Float64 124),
                 (''close'', Float64 (505 / 4)), (''aclose'', Float64 (505 / 4)), (''volume'', Int64 5000),
                 (''dividend'', Float64 0), (''splitc'', Int64 1)]),
              ((2021, 1, 6), [(''open'', Float64 126), (''high'', Float64 (261 / 2)), (''low'', Float64 (253 / 2)),
                 (''close'', Float64 (517 / 4)), (''aclose'', Float64 (517 / 4)), (''volume'', Int64 6000),
                 (''dividend'', Float64 0), (''splitc'', Int64 1)])]\<rparr>"

definition ibm_client :: client where
  "ibm_client =
     \<lparr>ticker = [''IBM''], api_key = ''k'', json_data = [ibm_series], json_metadata = [ibm_meta],
      data_frame = [ibm_table]\<rparr>"

definition start_client :: "string list \<Rightarrow> client" where
  "start_client ts = \<lparr>ticker = ts, api_key = ''k'', json_data = [], json_metadata = [], data_frame = []\<rparr>"

text \<open>A second table, and a client that holds two tables.\<close>

definition other_table :: "date frame" where
  "other_table = \<lparr>colnames = [''close''], rows = [((2020, 3, 16), [(''close'', Float64 99)])]\<rparr>"

definition two_table_client :: client where
  "two_table_client = ibm_client\<lparr>ticker := [''IBM'', ''AMZN''], data_frame := [ibm_table, other_table]\<rparr>"

text \<open>Two responses that depart from the format: one whose rows have no field
  \<^verbatim>\<open>1. open\<close>, one whose field \<^verbatim>\<open>1. open\<close> is no number.\<close>

definition serve :: "json \<Rightarrow> transport" where
  "serve body u = Inr \<lparr>url = u, status_code = 200, json_body = Some body\<rparr>"

definition series_no_open :: json where
  "series_no_open = JObj [(''2021-01-04'', JObj (tl (fields ''120'' ''123'' ''119'' ''122'' ''4000'')))]"

definition series_bad_value :: json where
  "series_bad_value = JObj [(''2021-01-04'', JObj (fields ''abc'' ''123'' ''119'' ''122'' ''4000''))]"

definition body_with :: "json \<Rightarrow> json" where
  "body_with series = JObj [(''Meta Data'', ibm_meta), (''Time Series (Daily)'', series)]"




section \<open>The API key\<close>

declare str_nat.simps [simp del]

text \<open>
  C8. When no key is supplied (the argument is \<^verbatim>\<open>None\<close> or another false value) and
  the environment has no default (the variable is unset or empty), or when the key
  supplied is not a string, the constructor fails with \<^verbatim>\<open>FinanceClientInvalidAPIKey\<close>
  and the trace of network calls is empty, for every list of tickers and every
  transport.
\<close>

theorem invalid_api_key_before_network:
  assumes "(\<not> truthy key \<and> (env = None \<or> env = Some [])) \<or> (truthy key \<and> \<not> is_str key)"
  shows "time_series_finance_client P get env tickers key =
           (Inl (FinanceClientInvalidAPIKey ''TimeSeriesFinanceClient operation failed''), [])"
  using assms by (auto simp: time_series_finance_client_def getenv_def invalid_api_key_def)

theorem invalid_api_key_before_network_witness:
  "time_series_finance_client sample_pandas get_refused None [''IBM'', ''AMZN''] PyNone =
     (Inl (FinanceClientInvalidAPIKey ''TimeSeriesFinanceClient operation failed''), [])
   \<and> time_series_finance_client sample_pandas get_refused (Some ''k'') [''IBM''] (PyObject True) =
     (Inl (FinanceClientInvalidAPIKey ''TimeSeriesFinanceClient operation failed''), [])"
  using invalid_api_key_before_network [of PyNone None sample_pandas get_refused "[''IBM'', ''AMZN'']"]
    invalid_api_key_before_network [of "PyObject True" "Some ''k''" sample_pandas get_refused "[''IBM'']"]
  by simp

section \<open>Running the model on the IBM response\<close>

lemma build_table_ibm: "build_table sample_pandas ibm_series = Inr ibm_table"
  by (simp add: build_table_def from_dict_def ibm_series_def fields_def as_block_def from_dict_block_def
     from_dict_row_def sample_pandas_def float_literal_def dec_float_def digit_val_def rename_def rename_label_def
     data_field2name_type_def astype_def cast_column_def cast_row_def trunc_int_def index_astype_datetime_def
     iso_date_def days_in_month_def leap_year_def sort_index_def ibm_table_def)

lemma init_loop_ibm:
  "init_loop get_ibm [''IBM''] (start_client [''IBM'']) [] =
     (Inr ((start_client [''IBM''])\<lparr>json_metadata := [ibm_meta], json_data := [ibm_series]\<rparr>), [ibm_url])"
  by (simp add: start_client_def get_ibm_def query_api_def process_query_response_def
      validate_query_data_def getitem_json_def ibm_body_def ibm_meta_def build_query_metadata_key_def
      build_query_data_key_def build_base_query_url_def build_base_query_url_params_def ibm_url_def)

lemma client_ibm:
  "time_series_finance_client sample_pandas get_ibm None [''IBM''] (PyStr ''k'') = (Inr ibm_client, [ibm_url])"
  using init_loop_ibm
  by (simp add: time_series_finance_client_def start_client_def build_data_frame_def py_nth_def
      build_table_ibm ibm_client_def)

section \<open>The empty list of tickers\<close>

text \<open>
  C10. With a usable API key, the constructor on the empty list of tickers returns a
  client and makes no network call, whatever the transport does. On that client every
  query returns the empty list, for all bounds: also with both bounds given and
  \<^verbatim>\<open>from > to\<close>, where no \<^verbatim>\<open>FinanceClientParamError\<close> is raised, because the check
  of the bounds is in the body of the loop over the tables.
\<close>

theorem empty_ticker_list:
  assumes "k = (if \<not> truthy key then getenv env else key)" and "truthy k" and "is_str k"
  shows "\<exists>c. time_series_finance_client P get env [] key = (Inr c, [])
           \<and> to_pandas c = []
           \<and> daily_price c from_date to_date = Inr []
           \<and> daily_volume c from_date to_date = Inr []
           \<and> yearly_dividends P c from_year to_year = Inr []
           \<and> yearly_dividends_per_quarter P c from_year to_year = Inr []
           \<and> highest_daily_variation P c = Inr []
           \<and> highest_monthly_mean_variation P c = Inr []"
  using assms
  by (simp add: time_series_finance_client_def build_data_frame_def to_pandas_def daily_price_def
      daily_volume_def yearly_dividends_def yearly_dividends_per_quarter_def
      highest_daily_variation_def highest_monthly_mean_variation_def Let_def)

theorem empty_ticker_list_witness:
  "\<exists>c. time_series_finance_client sample_pandas get_refused None [] (PyStr ''k'') = (Inr c, [])
           \<and> to_pandas c = []
           \<and> daily_price c (Some (2021, 1, 2)) (Some (2021, 1, 1)) = Inr []
           \<and> daily_volume c (Some (2021, 1, 2)) (Some (2021, 1, 1)) = Inr []
           \<and> yearly_dividends sample_pandas c (Some 2021) (Some 2020) = Inr []
           \<and> yearly_dividends_per_quarter sample_pandas c (Some 2021) (Some 2020) = Inr []
           \<and> highest_daily_variation sample_pandas c = Inr []
           \<and> highest_monthly_mean_variation sample_pandas c = Inr []"
  using empty_ticker_list [of "PyStr ''k''" "PyStr ''k''" None sample_pandas get_refused
      "Some (2021, 1, 2)" "Some (2021, 1, 1)" "Some 2021" "Some 2020"]
  by simp

section \<open>Export\<close>

text \<open>
  C9. \<^verbatim>\<open>to_csv(path)\<close> hands the first table of the client, and no other, to the
  writer. The result is the result on the client that holds the first table alone; on a
  client with at least one table it is that of writing the first table (an
  \<^verbatim>\<open>OSError\<close> of the writer becomes \<^verbatim>\<open>FinanceClientIOError\<close>); on a client with no
  table nothing is written and \<^verbatim>\<open>IndexError\<close> leaves the method.
\<close>

theorem to_csv_first_table:
  "to_csv P c path2file fs = to_csv P (c\<lparr>data_frame := take 1 (data_frame c)\<rparr>) path2file fs
   \<and> (\<forall>df rest. data_frame c = df # rest \<longrightarrow>
         to_csv P c path2file fs =
           (case pd_to_csv P df path2file fs of
              Inl e \<Rightarrow> if is_OSError e then Inl (FinanceClientIOError (unable_to_write path2file)) else Inl e
            | Inr fs' \<Rightarrow> Inr (path2file, fs')))
   \<and> (data_frame c = [] \<longrightarrow> to_csv P c path2file fs = Inl IndexError)"
  by (cases "data_frame c") (simp_all add: to_csv_def py_nth_def)

theorem to_csv_first_table_witness:
  "to_csv sample_pandas two_table_client ''test.csv'' Map.empty =
     Inr (''test.csv'', [''test.csv'' \<mapsto> ibm_table])
   \<and> to_csv sample_pandas two_table_client ''test.csv'' Map.empty =
       to_csv sample_pandas ibm_client ''test.csv'' Map.empty
   \<and> to_csv sample_pandas empty_client ''test.csv'' Map.empty = Inl IndexError"
  using to_csv_first_table [of sample_pandas two_table_client "''test.csv''" Map.empty]
    to_csv_first_table [of sample_pandas empty_client "''test.csv''" Map.empty]
  by (simp add: two_table_client_def ibm_client_def empty_client_def sample_pandas_def write_table_def
      to_csv_def py_nth_def)

section \<open>Failures of the query\<close>

text \<open>
  C4, as the code has it. When \<^verbatim>\<open>requests.get\<close> returns a response whose status is
  not 200, the loop over the tickers stops with \<^verbatim>\<open>FinanceClientAPIError\<close>, and the
  message holds the URL and the status of the response. When the status is 200 and the
  body cannot be decoded, the loop stops with \<^verbatim>\<open>FinanceClientInvalidData\<close>.
\<close>

theorem api_error_on_status:
  assumes "get (build_base_query_url @ build_base_query_url_params (api_key c) t) = Inr r"
  shows "(status_code r \<noteq> 200 \<longrightarrow>
            init_loop get (t # ts) c tr =
              (Inl (FinanceClientAPIError
                     (''Unsuccessful API access [URL: '' @ url r @ '', status: ''
                        @ str_int (status_code r) @ '']'')),
               tr @ [build_base_query_url @ build_base_query_url_params (api_key c) t]))
       \<and> (status_code r = 200 \<and> json_body r = None \<longrightarrow>
            init_loop get (t # ts) c tr =
              (Inl (FinanceClientInvalidData ''Invalid data''),
               tr @ [build_base_query_url @ build_base_query_url_params (api_key c) t]))"
  using assms by (simp add: query_api_def process_query_response_def)

theorem api_error_on_status_witness:
  "time_series_finance_client sample_pandas get_not_found None [''IBM'', ''AMZN''] (PyStr ''k'') =
     (Inl (FinanceClientAPIError
        (''Unsuccessful API access [URL: '' @ ibm_url @ '', status: 404]'')), [ibm_url])
   \<and> time_series_finance_client sample_pandas get_unparsable None [''IBM'', ''AMZN''] (PyStr ''k'') =
     (Inl (FinanceClientInvalidData ''Invalid data''), [ibm_url])"
  using api_error_on_status [of get_not_found "start_client [''IBM'', ''AMZN'']"
      "''IBM''" "\<lparr>url = ibm_url, status_code = 404, json_body = None\<rparr>" "[''AMZN'']" "[]"]
    api_error_on_status [of get_unparsable "start_client [''IBM'', ''AMZN'']"
      "''IBM''" "\<lparr>url = ibm_url, status_code = 200, json_body = None\<rparr>" "[''AMZN'']" "[]"]
  by (simp add: time_series_finance_client_def get_not_found_def get_unparsable_def ibm_url_def start_client_def
      build_base_query_url_def build_base_query_url_params_def str_int_def str_nat.simps digit_char_def)

text \<open>The claim as the specification states it fails on a body that cannot be decoded:
  the status is 200, and the exception is \<^verbatim>\<open>FinanceClientInvalidData\<close>, not
  \<^verbatim>\<open>FinanceClientAPIError\<close>.\<close>

theorem unparsable_body_counterexample:
  "time_series_finance_client sample_pandas get_unparsable None [''IBM''] (PyStr ''k'') =
     (Inl (FinanceClientInvalidData ''Invalid data''), [ibm_url])
   \<and> \<not> is_api_error (fst (time_series_finance_client sample_pandas get_unparsable None [''IBM''] (PyStr ''k'')))"
  by (simp add: time_series_finance_client_def get_unparsable_def query_api_def process_query_response_def
      build_base_query_url_def build_base_query_url_params_def ibm_url_def)

text \<open>
  X1. When \<^verbatim>\<open>requests.get\<close> itself raises, the handler of \<^verbatim>\<open>_query_api\<close> reads
  \<^verbatim>\<open>response.url\<close> before \<^verbatim>\<open>response\<close> was assigned: construction stops with
  \<^verbatim>\<open>UnboundLocalError\<close>, whatever the transport raised.
\<close>

theorem transport_exception_unbound_local:
  assumes "get (build_base_query_url @ build_base_query_url_params (api_key c) t) = Inl e"
  shows "init_loop get (t # ts) c tr =
           (Inl (UnboundLocalError ''response''),
            tr @ [build_base_query_url @ build_base_query_url_params (api_key c) t])"
  using assms by (simp add: query_api_def)

theorem transport_exception_unbound_local_witness:
  "time_series_finance_client sample_pandas get_refused None [''IBM'', ''AMZN''] (PyStr ''k'') =
     (Inl (UnboundLocalError ''response''), [ibm_url])"
  using transport_exception_unbound_local [of get_refused "start_client [''IBM'', ''AMZN'']" "''IBM''"
      ConnectionError "[''AMZN'']" "[]"]
  by (simp add: time_series_finance_client_def get_refused_def start_client_def
      build_base_query_url_def build_base_query_url_params_def ibm_url_def)

section \<open>The symbol of the metadata\<close>

text \<open>
  C7. For a ticker whose query returned a response with the metadata block \<open>md\<close> and a
  data block: when \<^verbatim>\<open>md["2. Symbol"]\<close> is the string of the ticker, the check passes
  and the loop goes on to the next ticker; when the field is missing, or \<open>md\<close> is no
  dict, or the field is anything else than that string, construction stops with
  \<^verbatim>\<open>FinanceClientInvalidData\<close>.
\<close>

theorem symbol_check:
  assumes "query_api get (api_key c) t = Inr r"
    and "json_body r = Some j"
    and "getitem_json j ''Meta Data'' = Inr md"
    and "getitem_json j ''Time Series (Daily)'' = Inr d"
  shows "(getitem_json md ''2. Symbol'' = Inr (JStr t) \<longrightarrow>
            validate_query_data
              (c\<lparr>json_metadata := json_metadata c @ [md], json_data := json_data c @ [d]\<rparr>) t = Inr ()
            \<and> init_loop get (t # ts) c tr =
                init_loop get ts (c\<lparr>json_metadata := json_metadata c @ [md], json_data := json_data c @ [d]\<rparr>)
                  (tr @ [build_base_query_url @ build_base_query_url_params (api_key c) t]))
       \<and> (getitem_json md ''2. Symbol'' \<noteq> Inr (JStr t) \<longrightarrow>
            init_loop get (t # ts) c tr =
              (Inl (FinanceClientInvalidData symbol_not_found),
               tr @ [build_base_query_url @ build_base_query_url_params (api_key c) t]))"
  using assms
  by (auto simp: process_query_response_def validate_query_data_def build_query_metadata_key_def
      build_query_data_key_def split: sum.splits)

theorem symbol_check_witness:
  "time_series_finance_client sample_pandas get_ibm None [''NOTICKER''] (PyStr ''k'') =
     (Inl (FinanceClientInvalidData symbol_not_found), [noticker_url])
   \<and> validate_query_data
        ((start_client [''IBM''])\<lparr>json_metadata := [ibm_meta], json_data := [ibm_series]\<rparr>) ''IBM'' = Inr ()"
  using symbol_check [of get_ibm "start_client [''NOTICKER'']" "''NOTICKER''"
      "\<lparr>url = noticker_url, status_code = 200, json_body = Some ibm_body\<rparr>" ibm_body ibm_meta ibm_series "[]" "[]"]
    symbol_check [of get_ibm "start_client [''IBM'']" "''IBM''"
      "\<lparr>url = ibm_url, status_code = 200, json_body = Some ibm_body\<rparr>" ibm_body ibm_meta ibm_series "[]" "[]"]
  by (simp add: time_series_finance_client_def start_client_def get_ibm_def query_api_def getitem_json_def
      ibm_body_def ibm_meta_def build_base_query_url_def build_base_query_url_params_def
      noticker_url_def ibm_url_def)

section \<open>What a constructed client holds\<close>

lemma traverse_Inr: "traverse f xs = Inr ys \<Longrightarrow> list_all2 (\<lambda>x y. f x = Inr y) xs ys"
  by (induction xs arbitrary: ys) (auto split: sum.splits)

lemma traverse_Inl: "traverse f xs = Inl e \<Longrightarrow> \<exists>x\<in>set xs. f x = Inl e"
  by (induction xs) (auto split: sum.splits)

lemma traverse_fails: "x \<in> set xs \<Longrightarrow> f x = Inl e \<Longrightarrow> \<exists>e'. traverse f xs = Inl e'"
  by (induction xs) (auto split: sum.splits)

lemma list_all2_fst_eq:
  assumes "list_all2 (\<lambda>x y. fst y = fst x) xs ys"
  shows "map fst ys = map fst xs"
  using assms by (induction rule: list_all2_induct) auto

lemma cast_column_keeps:
  assumes "cast_column df ct = Inr df'"
  shows "colnames df' = colnames df \<and> map fst (rows df') = map fst (rows df)"
proof -
  obtain c ty where ct: "ct = (c, ty)" by (cases ct)
  from assms ct obtain rs where
    rs: "traverse (\<lambda>(i, r). case cast_row c ty r of Inl e \<Rightarrow> Inl e | Inr r' \<Rightarrow> Inr (i, r')) (rows df) = Inr rs"
    and df': "df' = df\<lparr>rows := rs\<rparr>"
    by (auto simp: cast_column_def split: if_splits sum.splits)
  have "list_all2 (\<lambda>x y. fst y = fst x) (rows df) rs"
    using traverse_Inr [OF rs] by (rule list_all2_mono) (auto split: sum.splits)
  then show ?thesis using df' by (simp add: list_all2_fst_eq)
qed

lemma cast_columns_keeps:
  "cast_columns df cts = Inr df' \<Longrightarrow>
     colnames df' = colnames df \<and> map fst (rows df') = map fst (rows df)"
proof (induction cts arbitrary: df)
  case Nil
  then show ?case by simp
next
  case (Cons ct cts)
  then obtain df1 where a: "cast_column df ct = Inr df1" and b: "cast_columns df1 cts = Inr df'"
    by (auto split: sum.splits)
  show ?case using cast_column_keeps [OF a] Cons.IH [OF b] by simp
qed

lemma astype_keeps:
  assumes "astype df dtypes = Inr df'"
  shows "colnames df' = colnames df \<and> map fst (rows df') = map fst (rows df)
         \<and> fst ` set dtypes \<subseteq> set (colnames df)"
proof -
  from assms have none: "find (\<lambda>(c, ty). c \<notin> set (colnames df)) dtypes = None"
    and cc: "cast_columns df dtypes = Inr df'"
    by (auto simp: astype_def split: option.splits)
  from none have "fst ` set dtypes \<subseteq> set (colnames df)"
    by (auto simp: find_None_iff)
  with cast_columns_keeps [OF cc] show ?thesis by simp
qed

lemma rename_keeps:
  assumes "rename df m = Inr df'"
  shows "colnames df' = map (rename_label m) (colnames df) \<and> map fst (rows df') = map fst (rows df)"
  using assms by (auto simp: rename_def)

lemma index_astype_datetime_keeps:
  assumes "index_astype_datetime P df = Inr df'"
  shows "colnames df' = colnames df
         \<and> list_all2 (\<lambda>i d. pd_to_datetime P i = Some d) (map fst (rows df)) (map fst (rows df'))"
proof -
  from assms obtain rs where
    rs: "traverse (\<lambda>(i, r). case pd_to_datetime P i of None \<Rightarrow> Inl ValueError | Some d \<Rightarrow> Inr (d, r)) (rows df) = Inr rs"
    and df': "df' = \<lparr>colnames = colnames df, rows = rs\<rparr>"
    by (auto simp: index_astype_datetime_def split: sum.splits)
  have "list_all2 (\<lambda>x y. pd_to_datetime P (fst x) = Some (fst y)) (rows df) rs"
    using traverse_Inr [OF rs] by (rule list_all2_mono) (auto split: option.splits)
  then show ?thesis using df' by (simp add: list_all2_map1 list_all2_map2)
qed

lemma from_dict_block_index:
  assumes "from_dict_block P blk = Inr df"
  shows "map fst (rows df) = map fst (filter (\<lambda>(k, r). r \<noteq> []) blk)"
proof -
  define cols where "cols = rev (remdups (rev (concat (map (\<lambda>(k, r). map fst r) blk))))"
  from assms obtain rs where
    rs: "traverse (\<lambda>(k, r). case from_dict_row P cols r of Inl e \<Rightarrow> Inl e | Inr cells \<Rightarrow> Inr (k, cells))
           (filter (\<lambda>(k, r). r \<noteq> []) blk) = Inr rs"
    and df: "df = \<lparr>colnames = cols, rows = rs\<rparr>"
    by (auto simp: from_dict_block_def cols_def Let_def split: sum.splits)
  have "list_all2 (\<lambda>x y. fst y = fst x) (filter (\<lambda>(k, r). r \<noteq> []) blk) rs"
    using traverse_Inr [OF rs] by (rule list_all2_mono) (auto split: sum.splits)
  then show ?thesis using df by (simp add: list_all2_fst_eq)
qed

lemma from_dict_as_block:
  assumes "as_block j = Some blk"
  shows "from_dict P j = from_dict_block P blk"
  using assms by (cases j) (auto simp: from_dict_def as_block_def)

text \<open>What a table that was built says about its columns and its index.\<close>

lemma build_table_parts:
  assumes "build_table P j = Inr df"
  obtains df0 df3 where "from_dict P j = Inr df0"
    and "snd ` set (map (\<lambda>(key, name, ty). (key, name)) data_field2name_type) \<subseteq> set (colnames df3)"
    and "list_all2 (\<lambda>i d. pd_to_datetime P i = Some d) (map fst (rows df0)) (map fst (rows df3))"
    and "df = sort_index df3"
proof -
  from assms obtain df0 where a: "from_dict P j = Inr df0"
    by (auto simp: build_table_def split: sum.splits if_splits)
  from assms a obtain df1 where b: "rename df0 (map (\<lambda>(key, name, ty). (key, name)) data_field2name_type) = Inr df1"
    by (auto simp: rename_def)
  from assms a b obtain df2 where c: "astype df1 (map (\<lambda>(key, name, ty). (name, ty)) data_field2name_type) = Inr df2"
    by (auto simp: build_table_def split: sum.splits if_splits)
  from assms a b c obtain df3 where d: "index_astype_datetime P df2 = Inr df3" and e: "df = sort_index df3"
    by (auto simp: build_table_def split: sum.splits if_splits)
  note rk = rename_keeps [OF b] and ak = astype_keeps [OF c] and ik = index_astype_datetime_keeps [OF d]
  have cols: "snd ` set (map (\<lambda>(key, name, ty). (key, name)) data_field2name_type) \<subseteq> set (colnames df3)"
    using ak ik by (force simp: image_iff)
  have idx: "list_all2 (\<lambda>i d. pd_to_datetime P i = Some d) (map fst (rows df0)) (map fst (rows df3))"
    using rk ak ik by simp
  show ?thesis using that [OF a cols idx e] .
qed

lemma build_table_columns:
  assumes "build_table P j = Inr df"
  shows "''close'' \<in> set (colnames df) \<and> ''volume'' \<in> set (colnames df)
         \<and> ''high'' \<in> set (colnames df) \<and> ''low'' \<in> set (colnames df)
         \<and> ''dividend'' \<in> set (colnames df)"
proof -
  from assms obtain df3 where
    cols: "snd ` set (map (\<lambda>(key, name, ty). (key, name)) data_field2name_type) \<subseteq> set (colnames df3)"
    and df: "df = sort_index df3"
    by (rule build_table_parts)
  have "colnames df = colnames df3" using df by (simp add: sort_index_def)
  with cols show ?thesis by (simp add: data_field2name_type_def)
qed

lemma init_loop_keeps:
  "init_loop get ts c tr = (Inr c', tr') \<Longrightarrow>
     data_frame c' = data_frame c \<and> ticker c' = ticker c
     \<and> length (json_data c') = length (json_data c) + length ts"
proof (induction ts arbitrary: c tr)
  case Nil
  then show ?case by simp
next
  case (Cons t ts)
  from Cons.prems obtain r c1 where
    q: "query_api get (api_key c) t = Inr r" and p: "process_query_response c r = Inr c1"
    and rest: "init_loop get ts c1 (tr @ [build_base_query_url @ build_base_query_url_params (api_key c) t]) = (Inr c', tr')"
    by (auto simp: Let_def split: sum.splits)
  from p have "data_frame c1 = data_frame c \<and> ticker c1 = ticker c \<and> length (json_data c1) = Suc (length (json_data c))"
    by (auto simp: process_query_response_def split: option.splits sum.splits)
  with Cons.IH [OF rest] show ?case by simp
qed

lemma build_data_frame_loop_tables:
  "build_data_frame_loop P es c = Inr c' \<Longrightarrow>
     json_data c' = json_data c
     \<and> (\<exists>fs. data_frame c' = data_frame c @ fs \<and> length fs = length es
            \<and> (\<forall>df\<in>set fs. \<exists>j\<in>set (json_data c). build_table P j = Inr df))"
proof (induction es arbitrary: c)
  case Nil
  then show ?case by simp
next
  case (Cons e es)
  obtain i tick where e: "e = (i, tick)" by (cases e)
  from Cons.prems e obtain j df where
    j: "py_nth (json_data c) i = Inr j" and b: "build_table P j = Inr df"
    and rest: "build_data_frame_loop P es (c\<lparr>data_frame := data_frame c @ [df]\<rparr>) = Inr c'"
    by (auto split: sum.splits)
  from j have jin: "j \<in> set (json_data c)"
    by (auto simp: py_nth_def split: if_splits)
  from Cons.IH [OF rest] obtain fs where
    jd: "json_data c' = json_data c"
    and fs: "data_frame c' = (data_frame c @ [df]) @ fs" "length fs = length es"
      "\<forall>df\<in>set fs. \<exists>j\<in>set (json_data c). build_table P j = Inr df"
    by auto
  show ?case
    using jd fs jin b by (intro conjI exI [of _ "df # fs"]) auto
qed

lemma client_tables:
  assumes "time_series_finance_client P get env tickers key = (Inr c, tr)"
  shows "length (data_frame c) = length tickers
         \<and> (\<forall>df\<in>set (data_frame c). \<exists>j\<in>set (json_data c). build_table P j = Inr df)"
proof -
  define k where "k = (if \<not> truthy key then getenv env else key)"
  define c0 where "c0 = \<lparr>ticker = tickers, api_key = str_of k, json_data = [], json_metadata = [], data_frame = []\<rparr>"
  from assms obtain c1 where
    il: "init_loop get tickers c0 [] = (Inr c1, tr)" and bd: "build_data_frame P c1 = Inr c"
    by (auto simp: time_series_finance_client_def Let_def k_def c0_def split: if_splits sum.splits prod.splits)
  from init_loop_keeps [OF il] have c1: "data_frame c1 = []" "ticker c1 = tickers"
    by (simp_all add: c0_def)
  from bd have "build_data_frame_loop P (enumerate 0 tickers) c1 = Inr c"
    by (simp add: build_data_frame_def c1)
  from build_data_frame_loop_tables [OF this] c1 show ?thesis by auto
qed

section \<open>The index of a table\<close>

lemma digit_val_lt: "digit_val a = Some d \<Longrightarrow> d < 10"
  by (auto simp: digit_val_def split: if_splits)

lemma digit_val_inj: "digit_val a = Some d \<Longrightarrow> digit_val b = Some d \<Longrightarrow> a = b"
  by (auto simp: digit_val_def split: if_splits)

lemma digits_value_inj:
  "length a = length b \<Longrightarrow> digits_value x a = Some n \<Longrightarrow> digits_value y b = Some n
     \<Longrightarrow> x = y \<and> a = b"
proof (induction a b arbitrary: x y rule: list_induct2)
  case Nil
  then show ?case by simp
next
  case (Cons c cs c' cs')
  from Cons.prems obtain d d' where d: "digit_val c = Some d" "digit_val c' = Some d'"
    and r: "digits_value (10 * x + d) cs = Some n" "digits_value (10 * y + d') cs' = Some n"
    by (auto split: option.splits)
  from Cons.IH [OF r] have eq: "10 * x + d = 10 * y + d'" and cs: "cs = cs'" by simp_all
  from d have "d < 10" "d' < 10" by (auto dest: digit_val_lt)
  with eq have "x = y" "d = d'" by arith+
  with d cs show ?case by (auto dest: digit_val_inj)
qed

lemma length_10:
  assumes "length s = 10"
  obtains c0 c1 c2 c3 c4 c5 c6 c7 c8 c9 where "s = [c0, c1, c2, c3, c4, c5, c6, c7, c8, c9]"
  using assms by (auto simp: eval_nat_numeral length_Suc_conv)

lemma iso_date_inj:
  assumes "iso_date a = Some d" and "iso_date b = Some d"
  shows "a = b"
proof -
  from assms have la: "length a = 10" and lb: "length b = 10"
    by (auto simp: iso_date_def split: if_splits)
  obtain a0 a1 a2 a3 a4 a5 a6 a7 a8 a9 where a: "a = [a0, a1, a2, a3, a4, a5, a6, a7, a8, a9]"
    using la by (rule length_10)
  obtain b0 b1 b2 b3 b4 b5 b6 b7 b8 b9 where b: "b = [b0, b1, b2, b3, b4, b5, b6, b7, b8, b9]"
    using lb by (rule length_10)
  obtain y m dd where d: "d = (y, m, dd)" by (cases d)
  from assms(1) have A: "a4 = CHR ''-''" "a7 = CHR ''-''"
    "digits_value 0 [a0, a1, a2, a3] = Some y" "digits_value 0 [a5, a6] = Some m"
    "digits_value 0 [a8, a9] = Some dd"
    unfolding a d iso_date_def by (simp_all split: if_splits option.splits)
  from assms(2) have B: "b4 = CHR ''-''" "b7 = CHR ''-''"
    "digits_value 0 [b0, b1, b2, b3] = Some y" "digits_value 0 [b5, b6] = Some m"
    "digits_value 0 [b8, b9] = Some dd"
    unfolding b d iso_date_def by (simp_all split: if_splits option.splits)
  have "[a0, a1, a2, a3] = [b0, b1, b2, b3]"
    using digits_value_inj [OF _ A(3) B(3)] by simp
  moreover have "[a5, a6] = [b5, b6]"
    using digits_value_inj [OF _ A(4) B(4)] by simp
  moreover have "[a8, a9] = [b8, b9]"
    using digits_value_inj [OF _ A(5) B(5)] by simp
  ultimately show ?thesis using A(1,2) B(1,2) a b by simp
qed

lemma list_all2_right: "list_all2 R xs ys \<Longrightarrow> y \<in> set ys \<Longrightarrow> \<exists>x\<in>set xs. R x y"
  by (induction rule: list_all2_induct) auto

lemma distinct_dates:
  assumes "list_all2 (\<lambda>k d. iso_date k = Some d) ks ds" and "distinct ks"
  shows "distinct ds"
  using assms
proof (induction rule: list_all2_induct)
  case Nil
  then show ?case by simp
next
  case (Cons k ks d ds)
  have "d \<notin> set ds"
  proof
    assume "d \<in> set ds"
    then obtain k' where "k' \<in> set ks" "iso_date k' = Some d"
      using list_all2_right [OF Cons.hyps(2)] by blast
    with Cons.hyps(1) have "k' = k" by (rule_tac iso_date_inj)
    with \<open>k' \<in> set ks\<close> Cons.prems show False by simp
  qed
  with Cons show ?case by simp
qed

lemma strict_sort_key:
  assumes "distinct (map f xs)"
  shows "sorted_wrt (<) (map f (sort_key f xs))"
proof -
  have "distinct (map f (sort_key f xs))"
    using assms by (simp add: distinct_map)
  then show ?thesis by (simp add: strict_sorted_iff)
qed

lemma build_table_strict:
  assumes "build_table P j = Inr df" and "well_formed_block P j"
  shows "sorted_wrt (<) (index_values df)"
proof -
  from assms(2) obtain blk where blk: "as_block j = Some blk" and dk: "distinct (map fst blk)"
    and iso: "list_all (\<lambda>k. iso_date k \<noteq> None \<and> pd_to_datetime P k = iso_date k) (map fst blk)"
    by (auto simp: well_formed_block_def split: option.splits)
  from assms(1) obtain df0 df3 where df0: "from_dict P j = Inr df0"
    and idx: "list_all2 (\<lambda>i d. pd_to_datetime P i = Some d) (map fst (rows df0)) (map fst (rows df3))"
    and df: "df = sort_index df3"
    by (rule build_table_parts)
  let ?ks = "map fst (filter (\<lambda>(k, r). r \<noteq> []) blk)"
  have ks: "map fst (rows df0) = ?ks"
    using df0 blk by (simp add: from_dict_as_block from_dict_block_index)
  have sub: "set ?ks \<subseteq> set (map fst blk)" by auto
  have dks: "distinct ?ks" using dk by (simp add: distinct_map_filter)
  have "list_all2 (\<lambda>k d. iso_date k = Some d) ?ks (map fst (rows df3))"
  proof (rule list.rel_mono_strong [OF idx [unfolded ks]])
    fix k d assume "k \<in> set ?ks" and "pd_to_datetime P k = Some d"
    moreover from \<open>k \<in> set ?ks\<close> sub iso have "pd_to_datetime P k = iso_date k"
      by (auto simp: list_all_iff)
    ultimately show "iso_date k = Some d" by simp
  qed
  from distinct_dates [OF this dks] have "distinct (map fst (rows df3))" .
  from strict_sort_key [OF this] show ?thesis
    by (simp add: df sort_index_def index_values_def)
qed

text \<open>
  C6. When the constructor returns a client and every data block it received is well
  formed (an object of objects of strings keyed by distinct \<^verbatim>\<open>YYYY-MM-DD\<close> dates),
  the index of every table of the client is strictly ascending: sorted by date, with no
  date twice.
\<close>

theorem index_strictly_ascending:
  assumes "time_series_finance_client P get env tickers key = (Inr c, tr)"
    and "\<forall>j\<in>set (json_data c). well_formed_block P j"
  shows "\<forall>df\<in>set (data_frame c). sorted_wrt (<) (index_values df)"
proof
  fix df assume "df \<in> set (data_frame c)"
  with client_tables [OF assms(1)] obtain j where "j \<in> set (json_data c)" "build_table P j = Inr df"
    by auto
  with assms(2) show "sorted_wrt (<) (index_values df)"
    by (auto intro: build_table_strict)
qed

theorem index_strictly_ascending_witness:
  "time_series_finance_client sample_pandas get_ibm None [''IBM''] (PyStr ''k'') = (Inr ibm_client, [ibm_url])
   \<and> well_formed_block sample_pandas ibm_series
   \<and> index_values ibm_table = [(2021, 1, 4), (2021, 1, 5), (2021, 1, 6)]
   \<and> sorted_wrt (<) (index_values ibm_table)"
proof -
  have wf: "well_formed_block sample_pandas ibm_series"
    by (simp add: well_formed_block_def as_block_def ibm_series_def fields_def sample_pandas_def
        iso_date_def digit_val_def days_in_month_def leap_year_def)
  then have "\<forall>j\<in>set (json_data ibm_client). well_formed_block sample_pandas j"
    by (simp add: ibm_client_def)
  from index_strictly_ascending [OF client_ibm this]
  have "sorted_wrt (<) (index_values ibm_table)" by (simp add: ibm_client_def)
  with wf client_ibm show ?thesis by (simp add: index_values_def ibm_table_def)
qed

section \<open>Daily price and volume\<close>

lemma daily_loop_inverted:
  assumes "dfs \<noteq> []" and "\<forall>df\<in>set dfs. col \<in> set (colnames df)" and "t < f"
  shows "daily_loop col (Some f) (Some t) dfs ser = Inl (FinanceClientParamError ''Dates are incorrect'')"
  using assms by (cases dfs) (auto simp: getitem_def)

lemma daily_loop_unbounded:
  assumes "a = None \<or> b = None" and "\<forall>df\<in>set dfs. col \<in> set (colnames df)"
  shows "daily_loop col a b dfs ser =
           Inr (ser @ map (\<lambda>df. map (\<lambda>(i, r). (i, cell_at r col)) (rows df)) dfs)"
  using assms
  by (induction dfs arbitrary: ser) (auto simp: getitem_def split: option.splits)

text \<open>
  C1, as the code has it. On a client constructed for at least one ticker,
  \<^verbatim>\<open>daily_price\<close> and \<^verbatim>\<open>daily_volume\<close> with both bounds given and
  \<^verbatim>\<open>from > to\<close> fail with \<^verbatim>\<open>FinanceClientParamError\<close>; with a bound left out
  they check nothing, filter nothing, and return the whole \<^verbatim>\<open>close\<close> (or
  \<^verbatim>\<open>volume\<close>) column of every table.
\<close>

theorem daily_range_check:
  assumes "time_series_finance_client P get env tickers key = (Inr c, tr)" and "tickers \<noteq> []"
  shows "(to_date < from_date \<longrightarrow>
            daily_price c (Some from_date) (Some to_date) = Inl (FinanceClientParamError ''Dates are incorrect'')
            \<and> daily_volume c (Some from_date) (Some to_date) = Inl (FinanceClientParamError ''Dates are incorrect''))
       \<and> (a = None \<or> b = None \<longrightarrow>
            daily_price c a b = Inr (map (\<lambda>df. map (\<lambda>(i, r). (i, cell_at r ''close'')) (rows df)) (data_frame c))
            \<and> daily_volume c a b = Inr (map (\<lambda>df. map (\<lambda>(i, r). (i, cell_at r ''volume'')) (rows df)) (data_frame c)))"
proof -
  note ct = client_tables [OF assms(1)]
  from ct assms(2) have ne: "data_frame c \<noteq> []" by auto
  have cols: "\<forall>df\<in>set (data_frame c). ''close'' \<in> set (colnames df)"
    "\<forall>df\<in>set (data_frame c). ''volume'' \<in> set (colnames df)"
    using ct by (auto dest: build_table_columns)
  show ?thesis
    unfolding daily_price_def daily_volume_def
    using daily_loop_inverted [OF ne cols(1)] daily_loop_inverted [OF ne cols(2)]
      daily_loop_unbounded [OF _ cols(1)] daily_loop_unbounded [OF _ cols(2)]
    by simp
qed

theorem daily_range_check_witness:
  "daily_price ibm_client (Some (2021, 1, 5)) (Some (2021, 1, 4)) = Inl (FinanceClientParamError ''Dates are incorrect'')
   \<and> daily_volume ibm_client (Some (2021, 1, 5)) (Some (2021, 1, 4)) = Inl (FinanceClientParamError ''Dates are incorrect'')
   \<and> daily_price ibm_client (Some (2021, 1, 5)) None =
       Inr [[((2021, 1, 4), Float64 122), ((2021, 1, 5), Float64 (505 / 4)), ((2021, 1, 6), Float64 (517 / 4))]]
   \<and> daily_volume ibm_client None None =
       Inr [[((2021, 1, 4), Int64 4000), ((2021, 1, 5), Int64 5000), ((2021, 1, 6), Int64 6000)]]"
  using daily_range_check [OF client_ibm, of "(2021, 1, 4)" "(2021, 1, 5)" "Some (2021, 1, 5)" None]
    daily_range_check [OF client_ibm, of "(2021, 1, 4)" "(2021, 1, 5)" None None]
  by (simp add: ibm_client_def ibm_table_def cell_at_def)

text \<open>The claim for every constructed client fails on the client of the empty list of
  tickers: the check is in the body of the loop over the tables, which does not run.\<close>

theorem daily_range_check_counterexample:
  "time_series_finance_client sample_pandas get_refused None [] (PyStr ''k'') = (Inr empty_client, [])
   \<and> daily_price empty_client (Some (2021, 1, 2)) (Some (2021, 1, 1)) = Inr []
   \<and> daily_volume empty_client (Some (2021, 1, 2)) (Some (2021, 1, 1)) = Inr []"
  by (simp add: time_series_finance_client_def build_data_frame_def empty_client_def
      daily_price_def daily_volume_def)

section \<open>The largest daily variation\<close>
























section \<open>Data blocks that depart from the format\<close>

lemma from_dict_block_columns:
  assumes "from_dict_block P blk = Inr df"
  shows "set (colnames df) = (\<Union>(k, r)\<in>set blk. fst ` set r)"
proof -
  from assms have "colnames df = rev (remdups (rev (concat (map (\<lambda>(k, r). map fst r) blk))))"
    by (auto simp: from_dict_block_def Let_def split: sum.splits)
  then show ?thesis by auto
qed

lemma field_names_distinct:
  assumes "(key, name, ty) \<in> set data_field2name_type"
    and "map_of (map (\<lambda>(key, name, ty). (key, name)) data_field2name_type) c = Some name"
  shows "c = key"
  using assms by (auto simp: data_field2name_type_def split: if_splits)

lemma client_no_open:
  "time_series_finance_client sample_pandas (serve (body_with series_no_open)) None [''IBM''] (PyStr ''k'') =
     (Inl (KeyError ''open''), [ibm_url])"
  by (simp add: time_series_finance_client_def serve_def body_with_def ibm_meta_def query_api_def
      process_query_response_def validate_query_data_def getitem_json_def build_query_metadata_key_def
      build_query_data_key_def build_base_query_url_def build_base_query_url_params_def ibm_url_def
      build_data_frame_def py_nth_def
      build_table_def from_dict_def series_no_open_def fields_def as_block_def from_dict_block_def
      from_dict_row_def sample_pandas_def float_literal_def dec_float_def digit_val_def rename_def rename_label_def
      data_field2name_type_def astype_def)

text \<open>
  C2, at the input where the code departs from it. When the data block is read without
  error and no row of it holds a raw field of the rename mapping (nor a field already
  called by its column name), \<^verbatim>\<open>rename\<close> raises nothing, \<^verbatim>\<open>astype\<close> raises
  \<^verbatim>\<open>KeyError\<close> for the column, and the handler around \<^verbatim>\<open>astype\<close> catches
  \<^verbatim>\<open>TypeError\<close> only: the table is not built, and the exception is \<^verbatim>\<open>KeyError\<close>,
  not \<^verbatim>\<open>FinanceClientInvalidData\<close>.
\<close>

theorem missing_field_key_error:
  assumes "as_block j = Some blk" and "from_dict P j = Inr df0"
    and "(key, name, ty) \<in> set data_field2name_type"
    and "\<forall>(k, r)\<in>set blk. key \<notin> fst ` set r \<and> name \<notin> fst ` set r"
  shows "\<exists>c. build_table P j = Inl (KeyError c)"
proof -
  let ?m = "map (\<lambda>(key, name, ty). (key, name)) data_field2name_type"
  let ?dt = "map (\<lambda>(key, name, ty). (name, ty)) data_field2name_type"
  from assms(1,2) have "from_dict_block P blk = Inr df0"
    by (simp add: from_dict_as_block)
  from from_dict_block_columns [OF this] assms(4)
  have absent: "key \<notin> set (colnames df0)" "name \<notin> set (colnames df0)" by auto
  obtain df1 where df1: "rename df0 ?m = Inr df1" by (simp add: rename_def)
  have "name \<notin> set (colnames df1)"
  proof
    assume "name \<in> set (colnames df1)"
    then obtain c where c: "c \<in> set (colnames df0)" "rename_label ?m c = name"
      using rename_keeps [OF df1] by auto
    show False
    proof (cases "map_of ?m c")
      case None
      with c absent show False by (simp add: rename_label_def)
    next
      case (Some n)
      with c have "map_of ?m c = Some name" by (simp add: rename_label_def)
      from field_names_distinct [OF assms(3) this] c absent show False by simp
    qed
  qed
  moreover have "(name, ty) \<in> set ?dt" using assms(3) by force
  ultimately have "\<exists>x. x \<in> set ?dt \<and> (case x of (c, ty) \<Rightarrow> c \<notin> set (colnames df1))"
    by (intro exI [of _ "(name, ty)"]) simp
  then have "find (\<lambda>(c, ty). c \<notin> set (colnames df1)) ?dt \<noteq> None"
    unfolding find_None_iff by blast
  then obtain c ty' where "find (\<lambda>(c, ty). c \<notin> set (colnames df1)) ?dt = Some (c, ty')" by auto
  then have "astype df1 ?dt = Inl (KeyError c)" by (simp add: astype_def)
  with assms(2) df1 show ?thesis by (auto simp: build_table_def)
qed

theorem missing_field_key_error_witness:
  "time_series_finance_client sample_pandas (serve (body_with series_no_open)) None [''IBM''] (PyStr ''k'') =
     (Inl (KeyError ''open''), [ibm_url])
   \<and> (\<exists>c. build_table sample_pandas series_no_open = Inl (KeyError c))"
proof -
  have blk: "as_block series_no_open =
      Some [(''2021-01-04'', [(''2. high'', ''123''), (''3. low'', ''119''), (''4. close'', ''122''),
        (''5. adjusted close'', ''122''), (''6. volume'', ''4000''), (''7. dividend amount'', ''0.0''),
        (''8. split coefficient'', ''1.0'')])]"
    by (simp add: series_no_open_def fields_def as_block_def)
  have fd: "from_dict sample_pandas series_no_open =
      Inr \<lparr>colnames = [''2. high'', ''3. low'', ''4. close'', ''5. adjusted close'', ''6. volume'',
                       ''7. dividend amount'', ''8. split coefficient''],
           rows = [(''2021-01-04'', [(''2. high'', Float64 123), (''3. low'', Float64 119),
              (''4. close'', Float64 122), (''5. adjusted close'', Float64 122), (''6. volume'', Float64 4000),
              (''7. dividend amount'', Float64 0), (''8. split coefficient'', Float64 1)])]\<rparr>"
    by (simp add: from_dict_as_block [OF blk] from_dict_block_def from_dict_row_def sample_pandas_def
        float_literal_def dec_float_def digit_val_def)
  have "(''1. open'', ''open'', ''float'') \<in> set data_field2name_type"
    by (simp add: data_field2name_type_def)
  from missing_field_key_error [OF blk fd this]
  have "\<exists>c. build_table sample_pandas series_no_open = Inl (KeyError c)" by simp
  with client_no_open show ?thesis by simp
qed

lemma from_dict_row_error: "from_dict_row P cols r = Inl e \<Longrightarrow> e = ValueError"
  unfolding from_dict_row_def by (auto dest!: traverse_Inl split: option.splits)

lemma client_bad_value:
  "time_series_finance_client sample_pandas (serve (body_with series_bad_value)) None [''IBM''] (PyStr ''k'') =
     (Inl ValueError, [ibm_url])"
  by (simp add: time_series_finance_client_def serve_def body_with_def ibm_meta_def query_api_def
      process_query_response_def validate_query_data_def getitem_json_def build_query_metadata_key_def
      build_query_data_key_def build_base_query_url_def build_base_query_url_params_def ibm_url_def
      build_data_frame_def py_nth_def
      build_table_def from_dict_def series_bad_value_def fields_def as_block_def from_dict_block_def
      from_dict_row_def sample_pandas_def float_literal_def dec_float_def digit_val_def)

text \<open>
  C3, at the input where the code departs from it. When a field of a row of the data
  block is a string that is no float, \<^verbatim>\<open>from_dict\<close> with \<^verbatim>\<open>dtype=float\<close> raises
  \<^verbatim>\<open>ValueError\<close>, and the handler around it catches \<^verbatim>\<open>TypeError\<close> only: the
  exception is \<^verbatim>\<open>ValueError\<close>, not \<^verbatim>\<open>FinanceClientInvalidData\<close>.
\<close>

theorem bad_value_value_error:
  assumes "as_block j = Some blk" and "(k, r) \<in> set blk" and "map_of r f = Some s"
    and "pd_to_float P s = None"
  shows "build_table P j = Inl ValueError"
proof -
  define cols where "cols = rev (remdups (rev (concat (map (\<lambda>(k, r). map fst r) blk))))"
  define rowf :: "string \<times> (string \<times> string) list \<Rightarrow> py_exception + string \<times> (string \<times> cell) list"
    where "rowf = (\<lambda>x. case from_dict_row P cols (snd x) of
      Inl e \<Rightarrow> Inl e | Inr cells \<Rightarrow> Inr (fst x, cells))"
  have rowf: "(\<lambda>(k, r). case from_dict_row P cols r of Inl e \<Rightarrow> Inl e | Inr cells \<Rightarrow> Inr (k, cells)) = rowf"
    by (simp add: rowf_def fun_eq_iff split_def)
  from assms(3) have fr: "f \<in> fst ` set r" by (metis domI dom_map_of_conv_image_fst)
  with assms(2) have fc: "f \<in> set cols" unfolding cols_def by force
  define step where "step = (\<lambda>c. case map_of r c of None \<Rightarrow> Inr (c, NaN)
      | Some s \<Rightarrow> (case pd_to_float P s of None \<Rightarrow> Inl ValueError | Some v \<Rightarrow> Inr (c, v)))"
  have "step f = Inl ValueError"
    using assms(3,4) by (simp add: step_def)
  from traverse_fails [of f cols step ValueError, OF fc this]
  obtain e where "traverse step cols = Inl e" by blast
  then have "from_dict_row P cols r = Inl e"
    by (simp add: from_dict_row_def step_def)
  then have row: "rowf (k, r) = Inl ValueError"
    by (auto simp: rowf_def dest: from_dict_row_error)
  from fr have "r \<noteq> []" by auto
  with assms(2) have "(k, r) \<in> set (filter (\<lambda>(k, r). r \<noteq> []) blk)" by simp
  from traverse_fails [of "(k, r)" _ rowf ValueError, OF this row] obtain e' where
    e': "traverse rowf (filter (\<lambda>(k, r). r \<noteq> []) blk) = Inl e'" by blast
  from traverse_Inl [OF e'] obtain x where "rowf x = Inl e'" by blast
  then have "from_dict_row P cols (snd x) = Inl e'"
    by (simp add: rowf_def split: sum.splits)
  then have "e' = ValueError" by (rule from_dict_row_error)
  with e' have "from_dict_block P blk = Inl ValueError"
    by (simp add: from_dict_block_def cols_def [symmetric] rowf)
  with assms(1) show ?thesis by (simp add: build_table_def from_dict_as_block)
qed

theorem bad_value_value_error_witness:
  "time_series_finance_client sample_pandas (serve (body_with series_bad_value)) None [''IBM''] (PyStr ''k'') =
     (Inl ValueError, [ibm_url])
   \<and> build_table sample_pandas series_bad_value = Inl ValueError"
proof -
  have blk: "as_block series_bad_value =
      Some [(''2021-01-04'', [(''1. open'', ''abc''), (''2. high'', ''123''), (''3. low'', ''119''), (''4. close'', ''122''),
        (''5. adjusted close'', ''122''), (''6. volume'', ''4000''), (''7. dividend amount'', ''0.0''),
        (''8. split coefficient'', ''1.0'')])]"
    by (simp add: series_bad_value_def fields_def as_block_def)
  have "pd_to_float sample_pandas ''abc'' = None"
    by (simp add: sample_pandas_def float_literal_def dec_float_def digit_val_def)
  from bad_value_value_error [OF blk _ _ this, of "''2021-01-04''" _ "''1. open''"]
  have "build_table sample_pandas series_bad_value = Inl ValueError" by simp
  with client_bad_value show ?thesis by simp
qed

end
